theory Spec2Isabelle
  imports Complex_Main
begin

section \<open>Warehouse stock ledger: data model\<close>

text \<open>
  The embedding follows \<^verbatim>\<open>main.py\<close>, \<^verbatim>\<open>models.py\<close>, \<^verbatim>\<open>schemas.py\<close> and
  \<^verbatim>\<open>database.py\<close>. Conventions:
  \<^item> every ORM class is a record with the source's column names, every table a list of rows in
    insertion order, so that \<^verbatim>\<open>.first()\<close> is the first matching row;
  \<^item> quantities are Python floats kept in SQL \<^verbatim>\<open>Float\<close> columns. Their type is the type
    variable \<open>'q\<close>, and the operations the source applies to them are the fields of a record
    \<open>'q arith\<close> that every function takes as its first argument. Nothing is assumed of these
    operations except where a theorem says so, so what is proved holds of binary64 arithmetic
    with its rounding, its infinities and its NaN;
  \<^item> a quantity read from a row is the value that was written to it (true of every float but
    NaN, which the database driver stores as NULL);
  \<^item> the columns filled by the clock (\<^verbatim>\<open>created_at\<close>, \<^verbatim>\<open>updated_at\<close>,
    \<^verbatim>\<open>received_at\<close>, \<^verbatim>\<open>issued_at\<close>, \<^verbatim>\<open>started_at\<close>, \<^verbatim>\<open>finished_at\<close>) are left out;
  \<^item> a raised exception is the \<open>Inl\<close> branch of a sum, returned together with the session
    state at the moment of the raise;
  \<^item> a text built by an f-string is a constructor that carries the interpolated values.
\<close>

text \<open>
  The float operations of the source: the literal \<^verbatim>\<open>0\<close> where a quantity is expected,
  \<^verbatim>\<open>x + y\<close>, \<^verbatim>\<open>x - y\<close>, \<^verbatim>\<open>-x\<close>, \<^verbatim>\<open>abs(x)\<close>, the tests \<^verbatim>\<open>x < 0\<close> and
  \<^verbatim>\<open>x != 0\<close>, and the bounds \<^verbatim>\<open>gt=0\<close> and \<^verbatim>\<open>ge=0\<close> of the request schemas.
\<close>

record 'q arith =
  f_zero :: 'q
  f_add :: "'q \<Rightarrow> 'q \<Rightarrow> 'q"
  f_sub :: "'q \<Rightarrow> 'q \<Rightarrow> 'q"
  f_neg :: "'q \<Rightarrow> 'q"
  f_abs :: "'q \<Rightarrow> 'q"
  f_lt0 :: "'q \<Rightarrow> bool"
  f_ne0 :: "'q \<Rightarrow> bool"
  f_gt0 :: "'q \<Rightarrow> bool"
  f_ge0 :: "'q \<Rightarrow> bool"

datatype ReceiptStatus = draft | confirmed | cancelled

datatype IssueStatus = draft | confirmed | cancelled

datatype InventoryStatus = in_progress | completed | cancelled

datatype AuditActionType = create | update | delete | receipt | issue | adjust | inventory

text \<open>
  Descriptions written to the audit log: the caller's own text (\<^verbatim>\<open>data.reason\<close>), or one of the
  three f-strings of the source: "receipt by invoice {number}", "issue by invoice {number}",
  "inventory {number}, discrepancy: {delta:+.2f}".
\<close>

datatype 'q descr =
    Text string
  | Receipt_by_invoice string
  | Issue_by_invoice string
  | Inventory_discrepancy string 'q

text \<open>
  The \<^verbatim>\<open>detail\<close> of an \<^verbatim>\<open>HTTPException\<close>: "{tablename} id={obj_id} not found",
  "not enough components: available {before}, requested {abs(delta)}",
  "the invoice is already processed", "a confirmed invoice cannot be cancelled".
\<close>

datatype 'q detail =
    Not_found string int
  | Insufficient 'q 'q
  | Already_processed
  | Cannot_cancel_confirmed

text \<open>
  \<open>IntegrityError\<close> is what a flush raises when a \<^verbatim>\<open>unique=True\<close> column would hold a
  value twice; \<open>OverflowError\<close> is what the database driver raises when it is handed an integer
  that does not fit 64 bits; \<open>RequestValidationError\<close> is what the framework raises, before the
  handler runs, when the request body breaks a \<^verbatim>\<open>Field\<close> constraint of its schema.
\<close>

datatype 'q exn =
    HTTPException int "'q detail"
  | IntegrityError
  | OverflowError
  | RequestValidationError

record 'q Stock =
  id :: int
  component_id :: int
  location_id :: int
  quantity :: 'q
  reserved :: 'q

record 'q ReceiptItem =
  component_id :: int
  location_id :: "int option"
  quantity :: 'q
  price_rub :: "'q option"

record 'q Receipt =
  id :: int
  number :: string
  supplier_id :: int
  status :: ReceiptStatus
  invoice_number :: "string option"
  notes' :: "string option"
  created_by :: "string option"
  items :: "'q ReceiptItem list"

record 'q IssueItem =
  component_id :: int
  location_id :: "int option"
  quantity :: 'q

record 'q Issue =
  id :: int
  number :: string
  department :: "string option"
  requester :: "string option"
  status :: IssueStatus
  purpose :: "string option"
  notes' :: "string option"
  created_by :: "string option"
  items :: "'q IssueItem list"

record 'q InventoryItem =
  component_id :: int
  location_id :: "int option"
  expected_quantity :: 'q
  actual_quantity :: 'q
  discrepancy :: 'q

record 'q Inventory =
  id :: int
  number :: string
  status :: InventoryStatus
  notes' :: "string option"
  created_by :: "string option"
  items :: "'q InventoryItem list"

record 'q AuditLog =
  id :: int
  action_type :: AuditActionType
  entity_type :: string
  entity_id :: "int option"
  component_id :: "int option"
  location_id :: "int option"
  quantity_before :: "'q option"
  quantity_after :: "'q option"
  description :: "'q descr option"
  payload :: "string option"
  performed_by :: "string option"

text \<open>
  The database. Of the reference tables only the primary keys matter to the ledger, so
  \<open>components\<close>, \<open>storage_locations\<close> and \<open>suppliers\<close> list the ids of their rows.
\<close>

record 'q Database =
  components :: "int list"
  storage_locations :: "int list"
  suppliers :: "int list"
  stocks :: "'q Stock list"
  receipts :: "'q Receipt list"
  issues :: "'q Issue list"
  inventories :: "'q Inventory list"
  audit_logs :: "'q AuditLog list"

text \<open>
  A session (\<^verbatim>\<open>sessionmaker(autocommit=False, autoflush=False)\<close>): what the database holds,
  and what the open transaction sees. \<^verbatim>\<open>get_db\<close> opens a session for one request and closes
  it in its \<^verbatim>\<open>finally\<close>; closing discards whatever was not committed.
\<close>

record 'q Session =
  committed :: "'q Database"
  pending :: "'q Database"

definition SessionLocal :: "'q Database \<Rightarrow> 'q Session" where
  "SessionLocal d = \<lparr>committed = d, pending = d\<rparr>"

definition commit :: "'q Session \<Rightarrow> 'q Session" where
  "commit s = s\<lparr>committed := pending s\<rparr>"

definition close :: "'q Session \<Rightarrow> 'q Database" where
  "close s = committed s"

definition get_db ::
  "('q Session \<Rightarrow> ('q exn + 'a) \<times> 'q Session) \<Rightarrow> 'q Database \<Rightarrow> ('q exn + 'a) \<times> 'q Database" where
  "get_db handler d = (case handler (SessionLocal d) of (r, s) \<Rightarrow> (r, close s))"

section \<open>Helpers\<close>

text \<open>The integers the database can hold and the driver can bind: 64 bits, signed.\<close>

definition int64 :: "int \<Rightarrow> bool" where
  "int64 i = (- (2 ^ 63) \<le> i \<and> i < 2 ^ 63)"

text \<open>The key a new row gets: the largest key of the table plus one, 1 in an empty table.\<close>

definition next_id :: "int list \<Rightarrow> int" where
  "next_id ids = fold max ids 0 + 1"

text \<open>An attribute assignment on the object that \<^verbatim>\<open>.first()\<close> returned: the first matching row changes.\<close>

fun update_first :: "('a \<Rightarrow> bool) \<Rightarrow> ('a \<Rightarrow> 'a) \<Rightarrow> 'a list \<Rightarrow> 'a list" where
  "update_first P f [] = []"
| "update_first P f (x # xs) = (if P x then f x # xs else x # update_first P f xs)"

text \<open>\<^verbatim>\<open>db.refresh(obj)\<close>: the object is read again from the row that has its key.\<close>

definition refresh :: "('a \<Rightarrow> int) \<Rightarrow> 'a list \<Rightarrow> 'a \<Rightarrow> 'a" where
  "refresh ident rows obj =
   (case find (\<lambda>r. ident r = ident obj) rows of None \<Rightarrow> obj | Some row \<Rightarrow> row)"

text \<open>\<^verbatim>\<open>x or 1\<close> on an optional integer: \<^verbatim>\<open>None\<close> and 0 are both falsy.\<close>

definition or_1 :: "int option \<Rightarrow> int" where
  "or_1 x = (case x of None \<Rightarrow> 1 | Some l \<Rightarrow> if l = 0 then 1 else l)"

definition write_audit ::
  "'q Database \<Rightarrow> AuditActionType \<Rightarrow> string \<Rightarrow> int option \<Rightarrow> int option \<Rightarrow> int option \<Rightarrow>
   'q option \<Rightarrow> 'q option \<Rightarrow> 'q descr option \<Rightarrow> string option \<Rightarrow> string option \<Rightarrow> 'q Database" where
  "write_audit db a_type e_type e_id c_id l_id q_before q_after descr payl actor =
   db\<lparr>audit_logs := audit_logs db @
     [\<lparr>AuditLog.id = next_id (map AuditLog.id (audit_logs db)),
       AuditLog.action_type = a_type,
       AuditLog.entity_type = e_type,
       AuditLog.entity_id = e_id,
       AuditLog.component_id = c_id,
       AuditLog.location_id = l_id,
       AuditLog.quantity_before = q_before,
       AuditLog.quantity_after = q_after,
       AuditLog.description = descr,
       AuditLog.payload = payl,
       AuditLog.performed_by = actor\<rparr>]\<rparr>"

text \<open>
  \<^verbatim>\<open>_get_or_404\<close>: the query binds \<^verbatim>\<open>obj_id\<close>, which the driver refuses when it does not fit
  64 bits; otherwise the first row with that key, or HTTP 404.
\<close>

definition get_or_404 :: "string \<Rightarrow> ('a \<Rightarrow> int) \<Rightarrow> 'a list \<Rightarrow> int \<Rightarrow> 'q exn + 'a" where
  "get_or_404 tablename ident rows obj_id =
   (if \<not> int64 obj_id then Inl OverflowError
    else case find (\<lambda>r. ident r = obj_id) rows of
           None \<Rightarrow> Inl (HTTPException 404 (Not_found tablename obj_id))
         | Some obj \<Rightarrow> Inr obj)"

text \<open>
  The query that \<^verbatim>\<open>_stock_upsert\<close>, \<^verbatim>\<open>adjust_stock\<close> and \<^verbatim>\<open>create_inventory\<close> run to find
  the row of a cell. Where the ids come from the request without a check, the caller tests
  \<open>int64\<close> first (see \<open>inventory_line\<close>); \<^verbatim>\<open>_stock_upsert\<close> is handed the ids of stored
  lines, and stored integers fit 64 bits.
\<close>

definition at_cell :: "int \<Rightarrow> int \<Rightarrow> 'q Stock \<Rightarrow> bool" where
  "at_cell c l r = (Stock.component_id r = c \<and> Stock.location_id r = l)"

definition query_stock :: "'q Database \<Rightarrow> int \<Rightarrow> int \<Rightarrow> 'q Stock option" where
  "query_stock db c l = find (at_cell c l) (stocks db)"

text \<open>
  \<^verbatim>\<open>Stock(component_id=..., location_id=..., quantity=q)\<close>, added and flushed: \<open>reserved\<close>
  takes its column default 0.
\<close>

definition add_stock :: "'q arith \<Rightarrow> 'q Database \<Rightarrow> int \<Rightarrow> int \<Rightarrow> 'q \<Rightarrow> 'q Database \<times> 'q Stock" where
  "add_stock ar db c l q =
   (let row = \<lparr>Stock.id = next_id (map Stock.id (stocks db)), Stock.component_id = c,
                Stock.location_id = l, Stock.quantity = q, Stock.reserved = f_zero ar\<rparr>
    in (db\<lparr>stocks := stocks db @ [row]\<rparr>, row))"

definition set_quantity :: "'q Database \<Rightarrow> int \<Rightarrow> int \<Rightarrow> 'q \<Rightarrow> 'q Database" where
  "set_quantity db c l q =
   db\<lparr>stocks := update_first (at_cell c l) (\<lambda>r. r\<lparr>Stock.quantity := q\<rparr>) (stocks db)\<rparr>"

section \<open>The stock mutation\<close>

definition stock_upsert ::
  "'q arith \<Rightarrow> 'q Database \<Rightarrow> int \<Rightarrow> int \<Rightarrow> 'q \<Rightarrow> string option \<Rightarrow> AuditActionType \<Rightarrow>
   'q descr option \<Rightarrow> ('q exn + 'q Stock) \<times> 'q Database" where
  "stock_upsert ar db c_id l_id delta actor a_type descr =
   (let (db1, stock) =
          (case query_stock db c_id l_id of
             None \<Rightarrow> add_stock ar db c_id l_id (f_zero ar)
           | Some stock \<Rightarrow> (db, stock));
        before = Stock.quantity stock;
        after = f_add ar before delta
    in if f_lt0 ar after
       then (Inl (HTTPException 400 (Insufficient before (f_abs ar delta))), db1)
       else (let db2 = set_quantity db1 c_id l_id after;
                 db3 = write_audit db2 a_type ''stock'' (Some (Stock.id stock))
                         (Some c_id) (Some l_id) (Some before) (Some after)
                         descr None actor
             in (Inr (stock\<lparr>Stock.quantity := after\<rparr>), db3)))"

text \<open>The balance of a cell as every reader of it takes it: 0 where no row exists.\<close>

definition balance :: "'q arith \<Rightarrow> 'q Database \<Rightarrow> int \<Rightarrow> int \<Rightarrow> 'q" where
  "balance ar db c l =
   (case query_stock db c l of None \<Rightarrow> f_zero ar | Some stock \<Rightarrow> Stock.quantity stock)"

section \<open>Request schemas\<close>

record 'q StockAdjust =
  component_id :: int
  location_id :: int
  quantity :: 'q
  reason :: "string option"
  performed_by :: "string option"

record 'q ReceiptItemCreate =
  component_id :: int
  location_id :: "int option"
  quantity :: 'q
  price_rub :: "'q option"

record 'q ReceiptCreate =
  number :: string
  supplier_id :: int
  invoice_number :: "string option"
  notes' :: "string option"
  created_by :: "string option"
  items :: "'q ReceiptItemCreate list"

record ReceiptConfirm =
  performed_by :: "string option"

record 'q IssueItemCreate =
  component_id :: int
  location_id :: "int option"
  quantity :: 'q

record 'q IssueCreate =
  number :: string
  department :: "string option"
  requester :: "string option"
  purpose :: "string option"
  notes' :: "string option"
  created_by :: "string option"
  items :: "'q IssueItemCreate list"

record 'q InventoryItemCreate =
  component_id :: int
  location_id :: "int option"
  actual_quantity :: 'q

record 'q InventoryCreate =
  number :: string
  notes' :: "string option"
  created_by :: "string option"
  items :: "'q InventoryItemCreate list"

text \<open>
  The \<^verbatim>\<open>Field\<close> constraints: \<^verbatim>\<open>gt=0\<close> on the quantity of a receipt or issue line,
  \<^verbatim>\<open>ge=0\<close> on the actual quantity of an inventory line, none on the quantity of
  \<^verbatim>\<open>StockAdjust\<close>.
\<close>

definition valid_StockAdjust :: "'q arith \<Rightarrow> 'q StockAdjust \<Rightarrow> bool" where
  "valid_StockAdjust ar data = True"

definition valid_ReceiptCreate :: "'q arith \<Rightarrow> 'q ReceiptCreate \<Rightarrow> bool" where
  "valid_ReceiptCreate ar data =
   list_all (\<lambda>i. f_gt0 ar (ReceiptItemCreate.quantity i)) (ReceiptCreate.items data)"

definition valid_IssueCreate :: "'q arith \<Rightarrow> 'q IssueCreate \<Rightarrow> bool" where
  "valid_IssueCreate ar data =
   list_all (\<lambda>i. f_gt0 ar (IssueItemCreate.quantity i)) (IssueCreate.items data)"

definition valid_InventoryCreate :: "'q arith \<Rightarrow> 'q InventoryCreate \<Rightarrow> bool" where
  "valid_InventoryCreate ar data =
   list_all (\<lambda>i. f_ge0 ar (InventoryItemCreate.actual_quantity i)) (InventoryCreate.items data)"

text \<open>A route: the body is validated, then the handler runs in a session of its own.\<close>

definition route ::
  "bool \<Rightarrow> ('q Session \<Rightarrow> ('q exn + 'a) \<times> 'q Session) \<Rightarrow> 'q Database \<Rightarrow> ('q exn + 'a) \<times> 'q Database" where
  "route valid handler d = (if valid then get_db handler d else (Inl RequestValidationError, d))"

text \<open>
  What a flush does with the optional location of a line that was added to the session: the
  insert binds it, and the driver refuses an integer beyond 64 bits.
\<close>

definition storable :: "int option \<Rightarrow> bool" where
  "storable x = (case x of None \<Rightarrow> True | Some l \<Rightarrow> int64 l)"

section \<open>Manual adjustment\<close>

definition adjust_stock :: "'q arith \<Rightarrow> 'q StockAdjust \<Rightarrow> 'q Session \<Rightarrow> ('q exn + 'q Stock) \<times> 'q Session" where
  "adjust_stock ar data s =
   (let db = pending s;
        c_id = StockAdjust.component_id data;
        l_id = StockAdjust.location_id data;
        target = StockAdjust.quantity data
    in case get_or_404 ''components'' (\<lambda>x. x) (components db) c_id of
         Inl e \<Rightarrow> (Inl e, s)
       | Inr _ \<Rightarrow>
        (case get_or_404 ''storage_locations'' (\<lambda>x. x) (storage_locations db) l_id of
           Inl e \<Rightarrow> (Inl e, s)
         | Inr _ \<Rightarrow>
            (let found = query_stock db c_id l_id;
                 before = (case found of None \<Rightarrow> f_zero ar | Some stock \<Rightarrow> Stock.quantity stock);
                 (db1, stock) =
                   (case found of
                      None \<Rightarrow> add_stock ar db c_id l_id target
                    | Some stock \<Rightarrow>
                        (set_quantity db c_id l_id target, stock\<lparr>Stock.quantity := target\<rparr>));
                 db2 = write_audit db1 adjust ''stock'' (Some (Stock.id stock))
                         (Some c_id) (Some l_id) (Some before) (Some target)
                         (map_option Text (StockAdjust.reason data)) None
                         (StockAdjust.performed_by data)
             in (Inr stock, commit (s\<lparr>pending := db2\<rparr>)))))"

definition post_stocks_adjust ::
  "'q arith \<Rightarrow> 'q StockAdjust \<Rightarrow> 'q Database \<Rightarrow> ('q exn + 'q Stock) \<times> 'q Database" where
  "post_stocks_adjust ar data = route (valid_StockAdjust ar data) (adjust_stock ar data)"

section \<open>Receipts\<close>

fun create_receipt_items ::
  "'q Database \<Rightarrow> int \<Rightarrow> 'q ReceiptItemCreate list \<Rightarrow> ('q exn + unit) \<times> 'q Database" where
  "create_receipt_items db r_id [] = (Inr (), db)"
| "create_receipt_items db r_id (item_data # rest) =
   (case get_or_404 ''components'' (\<lambda>x. x) (components db) (ReceiptItemCreate.component_id item_data) of
      Inl e \<Rightarrow> (Inl e, db)
    | Inr _ \<Rightarrow>
       (let item = \<lparr>ReceiptItem.component_id = ReceiptItemCreate.component_id item_data,
                    ReceiptItem.location_id = ReceiptItemCreate.location_id item_data,
                    ReceiptItem.quantity = ReceiptItemCreate.quantity item_data,
                    ReceiptItem.price_rub = ReceiptItemCreate.price_rub item_data\<rparr>
        in create_receipt_items
             (db\<lparr>receipts := update_first (\<lambda>r. Receipt.id r = r_id)
                                (\<lambda>r. r\<lparr>Receipt.items := Receipt.items r @ [item]\<rparr>) (receipts db)\<rparr>)
             r_id rest))"

definition create_receipt :: "'q ReceiptCreate \<Rightarrow> 'q Session \<Rightarrow> ('q exn + 'q Receipt) \<times> 'q Session" where
  "create_receipt data s =
   (let db = pending s
    in case get_or_404 ''suppliers'' (\<lambda>x. x) (suppliers db) (ReceiptCreate.supplier_id data) of
         Inl e \<Rightarrow> (Inl e, s)
       | Inr _ \<Rightarrow>
          if ReceiptCreate.number data \<in> set (map Receipt.number (receipts db))
          then (Inl IntegrityError, s)
          else
           (let r_id = next_id (map Receipt.id (receipts db));
                row = \<lparr>Receipt.id = r_id,
                       Receipt.number = ReceiptCreate.number data,
                       Receipt.supplier_id = ReceiptCreate.supplier_id data,
                       Receipt.status = ReceiptStatus.draft,
                       Receipt.invoice_number = ReceiptCreate.invoice_number data,
                       Receipt.notes' = ReceiptCreate.notes' data,
                       Receipt.created_by = ReceiptCreate.created_by data,
                       Receipt.items = []\<rparr>;
                db1 = db\<lparr>receipts := receipts db @ [row]\<rparr>
            in case create_receipt_items db1 r_id (ReceiptCreate.items data) of
                 (Inl e, db2) \<Rightarrow> (Inl e, s\<lparr>pending := db2\<rparr>)
               | (Inr _, db2) \<Rightarrow>
                   if \<not> list_all (\<lambda>i. storable (ReceiptItemCreate.location_id i))
                            (ReceiptCreate.items data)
                   then (Inl OverflowError, s\<lparr>pending := db2\<rparr>)
                   else (Inr (refresh Receipt.id (receipts db2) row),
                         commit (s\<lparr>pending := db2\<rparr>))))"

fun confirm_receipt_items ::
  "'q arith \<Rightarrow> 'q Database \<Rightarrow> string \<Rightarrow> string option \<Rightarrow> 'q ReceiptItem list \<Rightarrow>
   ('q exn + unit) \<times> 'q Database" where
  "confirm_receipt_items ar db num actor [] = (Inr (), db)"
| "confirm_receipt_items ar db num actor (item # rest) =
   (case stock_upsert ar db (ReceiptItem.component_id item) (or_1 (ReceiptItem.location_id item))
           (ReceiptItem.quantity item) actor receipt (Some (Receipt_by_invoice num)) of
      (Inl e, db1) \<Rightarrow> (Inl e, db1)
    | (Inr _, db1) \<Rightarrow> confirm_receipt_items ar db1 num actor rest)"

definition confirm_receipt ::
  "'q arith \<Rightarrow> int \<Rightarrow> ReceiptConfirm \<Rightarrow> 'q Session \<Rightarrow> ('q exn + 'q Receipt) \<times> 'q Session" where
  "confirm_receipt ar rec_id data s =
   (case get_or_404 ''receipts'' Receipt.id (receipts (pending s)) rec_id of
      Inl e \<Rightarrow> (Inl e, s)
    | Inr rcpt \<Rightarrow>
       if Receipt.status rcpt \<noteq> ReceiptStatus.draft
       then (Inl (HTTPException 400 Already_processed), s)
       else
        (case confirm_receipt_items ar (pending s) (Receipt.number rcpt)
                (ReceiptConfirm.performed_by data) (Receipt.items rcpt) of
           (Inl e, db1) \<Rightarrow> (Inl e, s\<lparr>pending := db1\<rparr>)
         | (Inr _, db1) \<Rightarrow>
            (let db2 = db1\<lparr>receipts := update_first (\<lambda>r. Receipt.id r = rec_id)
                         (\<lambda>r. r\<lparr>Receipt.status := ReceiptStatus.confirmed\<rparr>) (receipts db1)\<rparr>
             in (Inr (rcpt\<lparr>Receipt.status := ReceiptStatus.confirmed\<rparr>),
                 commit (s\<lparr>pending := db2\<rparr>)))))"

definition cancel_receipt :: "int \<Rightarrow> 'q Session \<Rightarrow> ('q exn + 'q Receipt) \<times> 'q Session" where
  "cancel_receipt rec_id s =
   (case get_or_404 ''receipts'' Receipt.id (receipts (pending s)) rec_id of
      Inl e \<Rightarrow> (Inl e, s)
    | Inr rcpt \<Rightarrow>
       if Receipt.status rcpt = ReceiptStatus.confirmed
       then (Inl (HTTPException 400 Cannot_cancel_confirmed), s)
       else
        (let db1 = (pending s)\<lparr>receipts := update_first (\<lambda>r. Receipt.id r = rec_id)
                     (\<lambda>r. r\<lparr>Receipt.status := ReceiptStatus.cancelled\<rparr>) (receipts (pending s))\<rparr>
         in (Inr (rcpt\<lparr>Receipt.status := ReceiptStatus.cancelled\<rparr>),
             commit (s\<lparr>pending := db1\<rparr>))))"

section \<open>Issues\<close>

fun create_issue_items ::
  "'q Database \<Rightarrow> int \<Rightarrow> 'q IssueItemCreate list \<Rightarrow> ('q exn + unit) \<times> 'q Database" where
  "create_issue_items db i_id [] = (Inr (), db)"
| "create_issue_items db i_id (item_data # rest) =
   (case get_or_404 ''components'' (\<lambda>x. x) (components db) (IssueItemCreate.component_id item_data) of
      Inl e \<Rightarrow> (Inl e, db)
    | Inr _ \<Rightarrow>
       (let item = \<lparr>IssueItem.component_id = IssueItemCreate.component_id item_data,
                    IssueItem.location_id = IssueItemCreate.location_id item_data,
                    IssueItem.quantity = IssueItemCreate.quantity item_data\<rparr>
        in create_issue_items
             (db\<lparr>issues := update_first (\<lambda>r. Issue.id r = i_id)
                              (\<lambda>r. r\<lparr>Issue.items := Issue.items r @ [item]\<rparr>) (issues db)\<rparr>)
             i_id rest))"

definition create_issue :: "'q IssueCreate \<Rightarrow> 'q Session \<Rightarrow> ('q exn + 'q Issue) \<times> 'q Session" where
  "create_issue data s =
   (let db = pending s
    in if IssueCreate.number data \<in> set (map Issue.number (issues db))
       then (Inl IntegrityError, s)
       else
        (let i_id = next_id (map Issue.id (issues db));
             row = \<lparr>Issue.id = i_id,
                    Issue.number = IssueCreate.number data,
                    Issue.department = IssueCreate.department data,
                    Issue.requester = IssueCreate.requester data,
                    Issue.status = IssueStatus.draft,
                    Issue.purpose = IssueCreate.purpose data,
                    Issue.notes' = IssueCreate.notes' data,
                    Issue.created_by = IssueCreate.created_by data,
                    Issue.items = []\<rparr>;
             db1 = db\<lparr>issues := issues db @ [row]\<rparr>
         in case create_issue_items db1 i_id (IssueCreate.items data) of
              (Inl e, db2) \<Rightarrow> (Inl e, s\<lparr>pending := db2\<rparr>)
            | (Inr _, db2) \<Rightarrow>
                if \<not> list_all (\<lambda>i. storable (IssueItemCreate.location_id i))
                         (IssueCreate.items data)
                then (Inl OverflowError, s\<lparr>pending := db2\<rparr>)
                else (Inr (refresh Issue.id (issues db2) row), commit (s\<lparr>pending := db2\<rparr>))))"

fun confirm_issue_items ::
  "'q arith \<Rightarrow> 'q Database \<Rightarrow> string \<Rightarrow> string option \<Rightarrow> 'q IssueItem list \<Rightarrow>
   ('q exn + unit) \<times> 'q Database" where
  "confirm_issue_items ar db num actor [] = (Inr (), db)"
| "confirm_issue_items ar db num actor (item # rest) =
   (case stock_upsert ar db (IssueItem.component_id item) (or_1 (IssueItem.location_id item))
           (f_neg ar (IssueItem.quantity item)) actor issue (Some (Issue_by_invoice num)) of
      (Inl e, db1) \<Rightarrow> (Inl e, db1)
    | (Inr _, db1) \<Rightarrow> confirm_issue_items ar db1 num actor rest)"

definition confirm_issue ::
  "'q arith \<Rightarrow> int \<Rightarrow> string option \<Rightarrow> 'q Session \<Rightarrow> ('q exn + 'q Issue) \<times> 'q Session" where
  "confirm_issue ar iss_id actor s =
   (case get_or_404 ''issues'' Issue.id (issues (pending s)) iss_id of
      Inl e \<Rightarrow> (Inl e, s)
    | Inr iss \<Rightarrow>
       if Issue.status iss \<noteq> IssueStatus.draft
       then (Inl (HTTPException 400 Already_processed), s)
       else
        (case confirm_issue_items ar (pending s) (Issue.number iss) actor (Issue.items iss) of
           (Inl e, db1) \<Rightarrow> (Inl e, s\<lparr>pending := db1\<rparr>)
         | (Inr _, db1) \<Rightarrow>
            (let db2 = db1\<lparr>issues := update_first (\<lambda>r. Issue.id r = iss_id)
                         (\<lambda>r. r\<lparr>Issue.status := IssueStatus.confirmed\<rparr>) (issues db1)\<rparr>
             in (Inr (iss\<lparr>Issue.status := IssueStatus.confirmed\<rparr>),
                 commit (s\<lparr>pending := db2\<rparr>)))))"

definition cancel_issue :: "int \<Rightarrow> 'q Session \<Rightarrow> ('q exn + 'q Issue) \<times> 'q Session" where
  "cancel_issue iss_id s =
   (case get_or_404 ''issues'' Issue.id (issues (pending s)) iss_id of
      Inl e \<Rightarrow> (Inl e, s)
    | Inr iss \<Rightarrow>
       if Issue.status iss = IssueStatus.confirmed
       then (Inl (HTTPException 400 Cannot_cancel_confirmed), s)
       else
        (let db1 = (pending s)\<lparr>issues := update_first (\<lambda>r. Issue.id r = iss_id)
                     (\<lambda>r. r\<lparr>Issue.status := IssueStatus.cancelled\<rparr>) (issues (pending s))\<rparr>
         in (Inr (iss\<lparr>Issue.status := IssueStatus.cancelled\<rparr>),
             commit (s\<lparr>pending := db1\<rparr>))))"

section \<open>Inventory\<close>

text \<open>
  The body of the loop of \<^verbatim>\<open>create_inventory\<close>: one counted line. The location comes from the
  request and goes into the stock query unchecked, so the query raises when it does not fit 64
  bits.
\<close>

definition inventory_line ::
  "'q arith \<Rightarrow> 'q Database \<Rightarrow> int \<Rightarrow> string \<Rightarrow> string option \<Rightarrow> 'q InventoryItemCreate \<Rightarrow>
   ('q exn + unit) \<times> 'q Database" where
  "inventory_line ar db inv_id num actor item_data =
   (let c_id = InventoryItemCreate.component_id item_data
    in case get_or_404 ''components'' (\<lambda>x. x) (components db) c_id of
         Inl e \<Rightarrow> (Inl e, db)
       | Inr _ \<Rightarrow>
          (let loc_id = or_1 (InventoryItemCreate.location_id item_data)
           in if \<not> int64 loc_id then (Inl OverflowError, db)
              else
          (let found = query_stock db c_id loc_id;
               expected = (case found of None \<Rightarrow> f_zero ar | Some stock \<Rightarrow> Stock.quantity stock);
               actual = InventoryItemCreate.actual_quantity item_data;
               delta = f_sub ar actual expected;
               inv_item = \<lparr>InventoryItem.component_id = c_id,
                           InventoryItem.location_id = Some loc_id,
                           InventoryItem.expected_quantity = expected,
                           InventoryItem.actual_quantity = actual,
                           InventoryItem.discrepancy = delta\<rparr>;
               db1 = db\<lparr>inventories := update_first (\<lambda>r. Inventory.id r = inv_id)
                          (\<lambda>r. r\<lparr>Inventory.items := Inventory.items r @ [inv_item]\<rparr>)
                          (inventories db)\<rparr>
           in if f_ne0 ar delta
              then (let (db2, stock) =
                          (case found of
                             None \<Rightarrow> add_stock ar db1 c_id loc_id actual
                           | Some stock \<Rightarrow> (set_quantity db1 c_id loc_id actual, stock));
                        db3 = write_audit db2 inventory ''stock'' (Some (Stock.id stock))
                                (Some c_id) (Some loc_id) (Some expected) (Some actual)
                                (Some (Inventory_discrepancy num delta)) None actor
                    in (Inr (), db3))
              else (Inr (), db1))))"

fun create_inventory_items ::
  "'q arith \<Rightarrow> 'q Database \<Rightarrow> int \<Rightarrow> string \<Rightarrow> string option \<Rightarrow> 'q InventoryItemCreate list \<Rightarrow>
   ('q exn + unit) \<times> 'q Database" where
  "create_inventory_items ar db inv_id num actor [] = (Inr (), db)"
| "create_inventory_items ar db inv_id num actor (item_data # rest) =
   (case inventory_line ar db inv_id num actor item_data of
      (Inl e, db1) \<Rightarrow> (Inl e, db1)
    | (Inr _, db1) \<Rightarrow> create_inventory_items ar db1 inv_id num actor rest)"

definition create_inventory ::
  "'q arith \<Rightarrow> 'q InventoryCreate \<Rightarrow> 'q Session \<Rightarrow> ('q exn + 'q Inventory) \<times> 'q Session" where
  "create_inventory ar data s =
   (let db = pending s
    in if InventoryCreate.number data \<in> set (map Inventory.number (inventories db))
       then (Inl IntegrityError, s)
       else
        (let inv_id = next_id (map Inventory.id (inventories db));
             row = \<lparr>Inventory.id = inv_id,
                    Inventory.number = InventoryCreate.number data,
                    Inventory.status = InventoryStatus.in_progress,
                    Inventory.notes' = InventoryCreate.notes' data,
                    Inventory.created_by = InventoryCreate.created_by data,
                    Inventory.items = []\<rparr>;
             db1 = db\<lparr>inventories := inventories db @ [row]\<rparr>
         in case create_inventory_items ar db1 inv_id (InventoryCreate.number data)
                   (InventoryCreate.created_by data) (InventoryCreate.items data) of
              (Inl e, db2) \<Rightarrow> (Inl e, s\<lparr>pending := db2\<rparr>)
            | (Inr _, db2) \<Rightarrow>
               (let db3 = db2\<lparr>inventories := update_first (\<lambda>r. Inventory.id r = inv_id)
                            (\<lambda>r. r\<lparr>Inventory.status := InventoryStatus.completed\<rparr>)
                            (inventories db2)\<rparr>
                in (Inr (refresh Inventory.id (inventories db3) row),
                    commit (s\<lparr>pending := db3\<rparr>)))))"

section \<open>The routes\<close>

definition post_receipts ::
  "'q arith \<Rightarrow> 'q ReceiptCreate \<Rightarrow> 'q Database \<Rightarrow> ('q exn + 'q Receipt) \<times> 'q Database" where
  "post_receipts ar data = route (valid_ReceiptCreate ar data) (create_receipt data)"

definition post_receipts_confirm ::
  "'q arith \<Rightarrow> int \<Rightarrow> ReceiptConfirm \<Rightarrow> 'q Database \<Rightarrow> ('q exn + 'q Receipt) \<times> 'q Database" where
  "post_receipts_confirm ar rec_id data = route True (confirm_receipt ar rec_id data)"

definition post_receipts_cancel :: "int \<Rightarrow> 'q Database \<Rightarrow> ('q exn + 'q Receipt) \<times> 'q Database" where
  "post_receipts_cancel rec_id = route True (cancel_receipt rec_id)"

definition post_issues ::
  "'q arith \<Rightarrow> 'q IssueCreate \<Rightarrow> 'q Database \<Rightarrow> ('q exn + 'q Issue) \<times> 'q Database" where
  "post_issues ar data = route (valid_IssueCreate ar data) (create_issue data)"

definition post_issues_confirm ::
  "'q arith \<Rightarrow> int \<Rightarrow> string option \<Rightarrow> 'q Database \<Rightarrow> ('q exn + 'q Issue) \<times> 'q Database" where
  "post_issues_confirm ar iss_id actor = route True (confirm_issue ar iss_id actor)"

definition post_issues_cancel :: "int \<Rightarrow> 'q Database \<Rightarrow> ('q exn + 'q Issue) \<times> 'q Database" where
  "post_issues_cancel iss_id = route True (cancel_issue iss_id)"

definition post_inventories ::
  "'q arith \<Rightarrow> 'q InventoryCreate \<Rightarrow> 'q Database \<Rightarrow> ('q exn + 'q Inventory) \<times> 'q Database" where
  "post_inventories ar data = route (valid_InventoryCreate ar data) (create_inventory ar data)"

section \<open>Notions used by the properties\<close>

text \<open>
  A sequence of mutation calls on one session, each with its own arguments; a call that raises
  is caught and the next call runs in the state the failed call left. The outcomes are returned
  in call order.
\<close>

record 'q Mutation =
  m_component_id :: int
  m_location_id :: int
  m_delta :: 'q
  m_performed_by :: "string option"
  m_action_type :: AuditActionType
  m_description :: "'q descr option"

definition apply_mutation ::
  "'q arith \<Rightarrow> 'q Database \<Rightarrow> 'q Mutation \<Rightarrow> ('q exn + 'q Stock) \<times> 'q Database" where
  "apply_mutation ar db m =
   stock_upsert ar db (m_component_id m) (m_location_id m) (m_delta m)
     (m_performed_by m) (m_action_type m) (m_description m)"

fun apply_mutations ::
  "'q arith \<Rightarrow> 'q Database \<Rightarrow> 'q Mutation list \<Rightarrow> ('q exn + 'q Stock) list \<times> 'q Database" where
  "apply_mutations ar db [] = ([], db)"
| "apply_mutations ar db (m # ms) =
   (case apply_mutation ar db m of
      (r, db1) \<Rightarrow> (case apply_mutations ar db1 ms of (rs, db2) \<Rightarrow> (r # rs, db2)))"

text \<open>The deltas of the accepted calls that were addressed to one cell, in call order.\<close>

fun accepted_deltas :: "int \<Rightarrow> int \<Rightarrow> 'q Mutation list \<Rightarrow> ('q exn + 'q Stock) list \<Rightarrow> 'q list" where
  "accepted_deltas c l (m # ms) (Inr stock # rs) =
   (if m_component_id m = c \<and> m_location_id m = l
    then m_delta m # accepted_deltas c l ms rs
    else accepted_deltas c l ms rs)"
| "accepted_deltas c l (m # ms) (Inl e # rs) = accepted_deltas c l ms rs"
| "accepted_deltas c l ms rs = []"

text \<open>
  The sum of a list of quantities as the source's arithmetic forms it: from the left, starting
  at 0, each step one float addition.
\<close>

definition f_sum :: "'q arith \<Rightarrow> 'q list \<Rightarrow> 'q" where
  "f_sum ar qs = foldl (f_add ar) (f_zero ar) qs"

text \<open>
  How a stock table may differ from an earlier one when only quantities are written: row by
  row every column but \<open>quantity\<close> is the same, and the rows that were added have nothing
  reserved.
\<close>

fun only_quantity_written :: "'q arith \<Rightarrow> 'q Stock list \<Rightarrow> 'q Stock list \<Rightarrow> bool" where
  "only_quantity_written ar [] new = list_all (\<lambda>r. Stock.reserved r = f_zero ar) new"
| "only_quantity_written ar (a # old) [] = False"
| "only_quantity_written ar (a # old) (b # new) =
   (b = a\<lparr>Stock.quantity := Stock.quantity b\<rparr> \<and> only_quantity_written ar old new)"

text \<open>
  A fact of float arithmetic that one claim uses: a sum whose first term is not below zero is
  below zero only when the second term is, and the absolute value of such a term is its
  negation. (With a NaN or an infinite first term the sum is never below zero.)
\<close>

definition negative_addend_law :: "'q arith \<Rightarrow> bool" where
  "negative_addend_law ar =
   (\<forall>b x. \<not> f_lt0 ar b \<and> f_lt0 ar (f_add ar b x) \<longrightarrow> f_abs ar x = f_neg ar x)"

section \<open>Example data\<close>

text \<open>
  The arithmetic of the examples: the operations on reals without rounding. On integers of
  magnitude below \<open>2 ^ 53\<close>, which is all the examples use, binary64 computes exactly these.
\<close>

definition exact :: "real arith" where
  "exact = \<lparr>f_zero = 0, f_add = (+), f_sub = (-), f_neg = uminus, f_abs = abs,
            f_lt0 = (\<lambda>x. x < 0), f_ne0 = (\<lambda>x. x \<noteq> 0), f_gt0 = (\<lambda>x. 0 < x),
            f_ge0 = (\<lambda>x. 0 \<le> x)\<rparr>"

text \<open>A warehouse with one component, one cell and one supplier, and nothing in stock.\<close>

definition db_one :: "real Database" where
  "db_one = \<lparr>components = [1], storage_locations = [1], suppliers = [1], stocks = [],
              receipts = [], issues = [], inventories = [], audit_logs = []\<rparr>"

text \<open>The same warehouse with 10 pieces in the cell.\<close>

definition db_ten :: "real Database" where
  "db_ten = db_one\<lparr>stocks := [\<lparr>Stock.id = 1, Stock.component_id = 1, Stock.location_id = 1,
                                Stock.quantity = 10, Stock.reserved = 0\<rparr>]\<rparr>"

definition adjust_to :: "real \<Rightarrow> real StockAdjust" where
  "adjust_to q = \<lparr>StockAdjust.component_id = 1, StockAdjust.location_id = 1,
                  StockAdjust.quantity = q, StockAdjust.reason = None,
                  StockAdjust.performed_by = None\<rparr>"

text \<open>What the cell holds after a manual adjustment to \<open>-10\<close>.\<close>

definition db_negative :: "real Database" where
  "db_negative = snd (post_stocks_adjust exact (adjust_to (- 10)) db_one)"

text \<open>
  An issue in draft with two lines on the cell that holds 10: 5 pieces, then 15 pieces. The
  first line names location 0, the second none: both fall back to cell 1.
\<close>

definition issue_5_15 :: "real Issue" where
  "issue_5_15 = \<lparr>Issue.id = 1, Issue.number = ''RN-1'', Issue.department = None,
     Issue.requester = None, Issue.status = IssueStatus.draft, Issue.purpose = None,
     Issue.notes' = None, Issue.created_by = None,
     Issue.items = [\<lparr>IssueItem.component_id = 1, IssueItem.location_id = Some 0,
                      IssueItem.quantity = 5\<rparr>,
                    \<lparr>IssueItem.component_id = 1, IssueItem.location_id = None,
                      IssueItem.quantity = 15\<rparr>]\<rparr>"

definition db_issue :: "real Database" where
  "db_issue = db_ten\<lparr>issues := [issue_5_15]\<rparr>"

text \<open>A receipt in draft with one line of 3 pieces, in the warehouse whose cell stands at \<open>-10\<close>.\<close>

definition receipt_3 :: "real Receipt" where
  "receipt_3 = \<lparr>Receipt.id = 1, Receipt.number = ''PN-1'', Receipt.supplier_id = 1,
     Receipt.status = ReceiptStatus.draft, Receipt.invoice_number = None,
     Receipt.notes' = None, Receipt.created_by = None,
     Receipt.items = [\<lparr>ReceiptItem.component_id = 1, ReceiptItem.location_id = Some 1,
                        ReceiptItem.quantity = 3, ReceiptItem.price_rub = None\<rparr>]\<rparr>"

definition db_receipt :: "real Database" where
  "db_receipt = db_negative\<lparr>receipts := [receipt_3]\<rparr>"

text \<open>The same warehouse after the receipt was cancelled.\<close>

definition db_cancelled :: "real Database" where
  "db_cancelled = snd (post_receipts_cancel 1 db_receipt)"

text \<open>A request to count the cell: 7 pieces were found.\<close>

definition count_7 :: "real InventoryCreate" where
  "count_7 = \<lparr>InventoryCreate.number = ''INV-1'', InventoryCreate.notes' = None,
     InventoryCreate.created_by = None,
     InventoryCreate.items = [\<lparr>InventoryItemCreate.component_id = 1,
                                InventoryItemCreate.location_id = None,
                                InventoryItemCreate.actual_quantity = 7\<rparr>]\<rparr>"

text \<open>A request to create a receipt of 3 pieces, and one to create an issue of 5.\<close>

definition receipt_request :: "real ReceiptCreate" where
  "receipt_request = \<lparr>ReceiptCreate.number = ''PN-1'', ReceiptCreate.supplier_id = 1,
     ReceiptCreate.invoice_number = None, ReceiptCreate.notes' = None,
     ReceiptCreate.created_by = None,
     ReceiptCreate.items = [\<lparr>ReceiptItemCreate.component_id = 1,
                              ReceiptItemCreate.location_id = Some 1,
                              ReceiptItemCreate.quantity = 3,
                              ReceiptItemCreate.price_rub = None\<rparr>]\<rparr>"

definition issue_request :: "real IssueCreate" where
  "issue_request = \<lparr>IssueCreate.number = ''RN-2'', IssueCreate.department = None,
     IssueCreate.requester = None, IssueCreate.purpose = None, IssueCreate.notes' = None,
     IssueCreate.created_by = None,
     IssueCreate.items = [\<lparr>IssueItemCreate.component_id = 1,
                            IssueItemCreate.location_id = None,
                            IssueItemCreate.quantity = 5\<rparr>]\<rparr>"

text \<open>The warehouse with 10 pieces in the cell, 2 of them reserved.\<close>

definition db_held :: "real Database" where
  "db_held = db_one\<lparr>stocks := [\<lparr>Stock.id = 1, Stock.component_id = 1, Stock.location_id = 1,
                                  Stock.quantity = 10, Stock.reserved = 2\<rparr>]\<rparr>"

section \<open>Properties of the helpers\<close>

lemma exact_simps [simp]:
  "f_zero exact = 0" "f_add exact = (+)" "f_sub exact = (-)" "f_neg exact = uminus"
  "f_abs exact = abs" "f_lt0 exact = (\<lambda>x. x < 0)" "f_ne0 exact = (\<lambda>x. x \<noteq> 0)"
  "f_gt0 exact = (\<lambda>x. 0 < x)" "f_ge0 exact = (\<lambda>x. 0 \<le> x)"
  by (simp_all add: exact_def)

lemma int64_small [simp]: "int64 0" "int64 1"
  by (simp_all add: int64_def)

lemma find_update_first_same:
  "(\<And>x. P x \<Longrightarrow> P (f x)) \<Longrightarrow> find P (update_first P f xs) = map_option f (find P xs)"
  by (induction xs) auto

lemma find_update_first_other:
  "(\<And>x. Q (f x) = Q x) \<Longrightarrow> (\<And>x. Q x \<Longrightarrow> \<not> P x) \<Longrightarrow> find Q (update_first P f xs) = find Q xs"
  by (induction xs) auto

lemma find_append_single:
  "find P (xs @ [y]) = (case find P xs of None \<Rightarrow> (if P y then Some y else None) | Some x \<Rightarrow> Some x)"
  by (induction xs) auto

lemma update_first_none: "find P xs = None \<Longrightarrow> update_first P f xs = xs"
  by (induction xs) (auto split: if_splits)

lemma length_update_first [simp]: "length (update_first P f xs) = length xs"
  by (induction xs) auto

lemma find_at_cell: "find (at_cell c l) xs = Some r \<Longrightarrow> Stock.component_id r = c \<and> Stock.location_id r = l"
  by (induction xs) (auto simp: at_cell_def split: if_splits)

lemma at_cell_quantity_update [simp]: "at_cell c l (r\<lparr>Stock.quantity := q\<rparr>) = at_cell c l r"
  by (simp add: at_cell_def)

lemma balance_write_audit [simp]:
  "balance ar (write_audit db a e i c l qb qa d p actor) c' l' = balance ar db c' l'"
  by (simp add: balance_def query_stock_def write_audit_def)

lemma balance_set_quantity:
  "balance ar (set_quantity db c l q) c' l' =
   (if c' = c \<and> l' = l \<and> query_stock db c l \<noteq> None then q else balance ar db c' l')"
proof (cases "c' = c \<and> l' = l")
  case True
  then show ?thesis
    by (auto simp: balance_def query_stock_def set_quantity_def find_update_first_same
        split: option.splits)
next
  case False
  then have "(c', l') \<noteq> (c, l)" by simp
  then have "find (at_cell c' l') (update_first (at_cell c l) (\<lambda>r. r\<lparr>Stock.quantity := q\<rparr>) (stocks db))
        = find (at_cell c' l') (stocks db)"
    by (intro find_update_first_other) (auto simp: at_cell_def)
  with False show ?thesis
    by (auto simp: balance_def query_stock_def set_quantity_def)
qed

lemma query_stock_add_stock:
  "query_stock (fst (add_stock ar db c l q)) c' l' =
   (case query_stock db c' l' of
      None \<Rightarrow> if c' = c \<and> l' = l then Some (snd (add_stock ar db c l q)) else None
    | Some r \<Rightarrow> Some r)"
  by (auto simp: query_stock_def add_stock_def Let_def find_append_single at_cell_def split: option.splits)

lemma snd_add_stock:
  "snd (add_stock ar db c l q) =
   \<lparr>Stock.id = next_id (map Stock.id (stocks db)), Stock.component_id = c,
    Stock.location_id = l, Stock.quantity = q, Stock.reserved = f_zero ar\<rparr>"
  by (simp add: add_stock_def Let_def)

lemma balance_add_stock:
  "query_stock db c l = None \<Longrightarrow>
   balance ar (fst (add_stock ar db c l q)) c' l' = (if c' = c \<and> l' = l then q else balance ar db c' l')"
  by (auto simp: balance_def query_stock_add_stock snd_add_stock split: option.splits)

lemma stock_upsert_absent:
  "query_stock db c l = None \<Longrightarrow>
   stock_upsert ar db c l delta actor k d =
   (let db1 = fst (add_stock ar db c l (f_zero ar)); stock = snd (add_stock ar db c l (f_zero ar));
        after = f_add ar (f_zero ar) delta in
    if f_lt0 ar after then (Inl (HTTPException 400 (Insufficient (f_zero ar) (f_abs ar delta))), db1)
    else (Inr (stock\<lparr>Stock.quantity := after\<rparr>),
          write_audit (set_quantity db1 c l after) k ''stock'' (Some (Stock.id stock))
            (Some c) (Some l) (Some (f_zero ar)) (Some after) d None actor))"
  by (simp add: stock_upsert_def add_stock_def Let_def)

lemma stock_upsert_present:
  "query_stock db c l = Some stock \<Longrightarrow>
   stock_upsert ar db c l delta actor k d =
   (let before = Stock.quantity stock; after = f_add ar before delta in
    if f_lt0 ar after then (Inl (HTTPException 400 (Insufficient before (f_abs ar delta))), db)
    else (Inr (stock\<lparr>Stock.quantity := after\<rparr>),
          write_audit (set_quantity db c l after) k ''stock'' (Some (Stock.id stock))
            (Some c) (Some l) (Some before) (Some after) d None actor))"
  by (simp add: stock_upsert_def Let_def)

lemma balance_stock_upsert:
  "balance ar (snd (stock_upsert ar db c l delta actor k d)) c' l' =
   (if c' = c \<and> l' = l \<and> \<not> f_lt0 ar (f_add ar (balance ar db c l) delta)
    then f_add ar (balance ar db c l) delta else balance ar db c' l')"
proof (cases "query_stock db c l")
  case None
  have q: "query_stock (fst (add_stock ar db c l (f_zero ar))) c l \<noteq> None"
    by (simp add: query_stock_add_stock None)
  have b0: "balance ar db c l = f_zero ar" by (simp add: balance_def None)
  show ?thesis
    using None q b0
    by (auto simp: stock_upsert_absent Let_def balance_set_quantity balance_add_stock)
next
  case (Some stock)
  then have b: "balance ar db c l = Stock.quantity stock" by (simp add: balance_def)
  show ?thesis
    using Some b by (auto simp: stock_upsert_present Let_def balance_set_quantity)
qed

lemma audit_logs_set_quantity [simp]: "audit_logs (set_quantity db c l q) = audit_logs db"
  by (simp add: set_quantity_def)

lemma audit_logs_add_stock [simp]: "audit_logs (fst (add_stock ar db c l q)) = audit_logs db"
  by (simp add: add_stock_def Let_def)

lemma stock_upsert_raises:
  "f_lt0 ar (f_add ar (balance ar db c l) delta) \<Longrightarrow>
   stock_upsert ar db c l delta actor k d =
   (Inl (HTTPException 400 (Insufficient (balance ar db c l) (f_abs ar delta))),
    case query_stock db c l of None \<Rightarrow> fst (add_stock ar db c l (f_zero ar)) | Some stock \<Rightarrow> db)"
  by (cases "query_stock db c l") (auto simp: stock_upsert_absent stock_upsert_present balance_def Let_def)

lemma stock_upsert_returns:
  "\<not> f_lt0 ar (f_add ar (balance ar db c l) delta) \<Longrightarrow>
   \<exists>stock. fst (stock_upsert ar db c l delta actor k d) = Inr stock"
  by (cases "query_stock db c l") (auto simp: stock_upsert_absent stock_upsert_present balance_def Let_def)

lemma post_stocks_adjust_minus_10:
  "post_stocks_adjust exact (adjust_to (- 10)) db_one =
   (Inr \<lparr>Stock.id = 1, Stock.component_id = 1, Stock.location_id = 1,
         Stock.quantity = - 10, Stock.reserved = 0\<rparr>,
    db_one\<lparr>stocks := [\<lparr>Stock.id = 1, Stock.component_id = 1, Stock.location_id = 1,
                        Stock.quantity = - 10, Stock.reserved = 0\<rparr>],
     audit_logs := [\<lparr>AuditLog.id = 1, AuditLog.action_type = adjust, AuditLog.entity_type = ''stock'',
       AuditLog.entity_id = Some 1, AuditLog.component_id = Some 1, AuditLog.location_id = Some 1,
       AuditLog.quantity_before = Some 0, AuditLog.quantity_after = Some (- 10),
       AuditLog.description = None, AuditLog.payload = None, AuditLog.performed_by = None\<rparr>]\<rparr>)"
  by (simp add: post_stocks_adjust_def route_def valid_StockAdjust_def get_db_def
      SessionLocal_def adjust_stock_def adjust_to_def db_one_def get_or_404_def query_stock_def
      add_stock_def write_audit_def commit_def close_def next_id_def Let_def)

lemma db_negative_eq:
  "db_negative = db_one\<lparr>stocks := [\<lparr>Stock.id = 1, Stock.component_id = 1, Stock.location_id = 1,
                                Stock.quantity = - 10, Stock.reserved = 0\<rparr>],
     audit_logs := [\<lparr>AuditLog.id = 1, AuditLog.action_type = adjust, AuditLog.entity_type = ''stock'',
       AuditLog.entity_id = Some 1, AuditLog.component_id = Some 1, AuditLog.location_id = Some 1,
       AuditLog.quantity_before = Some 0, AuditLog.quantity_after = Some (- 10),
       AuditLog.description = None, AuditLog.payload = None, AuditLog.performed_by = None\<rparr>]\<rparr>"
  by (simp add: db_negative_def post_stocks_adjust_minus_10)

lemma negative_addend_law_exact: "negative_addend_law exact"
  by (auto simp: negative_addend_law_def)

section \<open>C1: a mutation that would overdraw the cell\<close>

text \<open>
  Claim C1. A call of \<^verbatim>\<open>_stock_upsert\<close> whose result \<open>before + delta\<close> is below zero raises
  HTTP 400 with the insufficient-stock detail; it carries \<open>available = before\<close> and
  \<open>requested = abs(delta)\<close>, which on a cell that is not below zero is \<open>-delta\<close>. The ledger
  and the balance of every cell are as before the call; the session holds a new row of
  quantity 0 for the cell when it had none. A call that returns leaves the cell not below
  zero, and no call makes a store without a cell below zero have one.
\<close>

theorem stock_upsert_overdraw:
  "(f_lt0 ar (f_add ar (balance ar db c l) delta) \<longrightarrow>
      stock_upsert ar db c l delta actor k d =
        (Inl (HTTPException 400 (Insufficient (balance ar db c l) (f_abs ar delta))),
         case query_stock db c l of
           None \<Rightarrow> fst (add_stock ar db c l (f_zero ar)) | Some stock \<Rightarrow> db)
      \<and> audit_logs (snd (stock_upsert ar db c l delta actor k d)) = audit_logs db
      \<and> (\<forall>c' l'. balance ar (snd (stock_upsert ar db c l delta actor k d)) c' l'
                   = balance ar db c' l')
      \<and> (\<not> f_lt0 ar (balance ar db c l) \<and> negative_addend_law ar \<longrightarrow>
            fst (stock_upsert ar db c l delta actor k d) =
              Inl (HTTPException 400 (Insufficient (balance ar db c l) (f_neg ar delta)))))
   \<and> ((\<exists>stock. fst (stock_upsert ar db c l delta actor k d) = Inr stock) \<longrightarrow>
        \<not> f_lt0 ar (balance ar (snd (stock_upsert ar db c l delta actor k d)) c l))
   \<and> ((\<forall>c' l'. \<not> f_lt0 ar (balance ar db c' l')) \<longrightarrow>
        (\<forall>c' l'. \<not> f_lt0 ar (balance ar (snd (stock_upsert ar db c l delta actor k d)) c' l')))"
proof -
  have raise: "stock_upsert ar db c l delta actor k d =
        (Inl (HTTPException 400 (Insufficient (balance ar db c l) (f_abs ar delta))),
         case query_stock db c l of
           None \<Rightarrow> fst (add_stock ar db c l (f_zero ar)) | Some stock \<Rightarrow> db)"
    if "f_lt0 ar (f_add ar (balance ar db c l) delta)"
    by (rule stock_upsert_raises [OF that])
  have c1: "f_lt0 ar (f_add ar (balance ar db c l) delta) \<longrightarrow>
      stock_upsert ar db c l delta actor k d =
        (Inl (HTTPException 400 (Insufficient (balance ar db c l) (f_abs ar delta))),
         case query_stock db c l of
           None \<Rightarrow> fst (add_stock ar db c l (f_zero ar)) | Some stock \<Rightarrow> db)
      \<and> audit_logs (snd (stock_upsert ar db c l delta actor k d)) = audit_logs db
      \<and> (\<forall>c' l'. balance ar (snd (stock_upsert ar db c l delta actor k d)) c' l'
                   = balance ar db c' l')
      \<and> (\<not> f_lt0 ar (balance ar db c l) \<and> negative_addend_law ar \<longrightarrow>
            fst (stock_upsert ar db c l delta actor k d) =
              Inl (HTTPException 400 (Insufficient (balance ar db c l) (f_neg ar delta))))"
  proof
    assume neg: "f_lt0 ar (f_add ar (balance ar db c l) delta)"
    have a: "audit_logs (snd (stock_upsert ar db c l delta actor k d)) = audit_logs db"
      by (simp add: raise [OF neg] split: option.splits)
    have b: "\<forall>c' l'. balance ar (snd (stock_upsert ar db c l delta actor k d)) c' l'
                   = balance ar db c' l'"
      using neg by (simp add: balance_stock_upsert)
    have r: "fst (stock_upsert ar db c l delta actor k d) =
              Inl (HTTPException 400 (Insufficient (balance ar db c l) (f_neg ar delta)))"
      if "\<not> f_lt0 ar (balance ar db c l) \<and> negative_addend_law ar"
    proof -
      from that neg have "f_abs ar delta = f_neg ar delta"
        unfolding negative_addend_law_def by blast
      then show ?thesis by (simp add: raise [OF neg])
    qed
    from raise [OF neg] a b r show "stock_upsert ar db c l delta actor k d =
        (Inl (HTTPException 400 (Insufficient (balance ar db c l) (f_abs ar delta))),
         case query_stock db c l of
           None \<Rightarrow> fst (add_stock ar db c l (f_zero ar)) | Some stock \<Rightarrow> db)
      \<and> audit_logs (snd (stock_upsert ar db c l delta actor k d)) = audit_logs db
      \<and> (\<forall>c' l'. balance ar (snd (stock_upsert ar db c l delta actor k d)) c' l'
                   = balance ar db c' l')
      \<and> (\<not> f_lt0 ar (balance ar db c l) \<and> negative_addend_law ar \<longrightarrow>
            fst (stock_upsert ar db c l delta actor k d) =
              Inl (HTTPException 400 (Insufficient (balance ar db c l) (f_neg ar delta))))"
      by blast
  qed
  have c2: "(\<exists>stock. fst (stock_upsert ar db c l delta actor k d) = Inr stock) \<longrightarrow>
        \<not> f_lt0 ar (balance ar (snd (stock_upsert ar db c l delta actor k d)) c l)"
  proof
    assume "\<exists>stock. fst (stock_upsert ar db c l delta actor k d) = Inr stock"
    then have "\<not> f_lt0 ar (f_add ar (balance ar db c l) delta)"
      by (auto simp: stock_upsert_raises)
    then show "\<not> f_lt0 ar (balance ar (snd (stock_upsert ar db c l delta actor k d)) c l)"
      by (simp add: balance_stock_upsert)
  qed
  have c3: "(\<forall>c' l'. \<not> f_lt0 ar (balance ar db c' l')) \<longrightarrow>
        (\<forall>c' l'. \<not> f_lt0 ar (balance ar (snd (stock_upsert ar db c l delta actor k d)) c' l'))"
    by (simp add: balance_stock_upsert)
  from c1 c2 c3 show ?thesis by (intro conjI)
qed

theorem stock_upsert_overdraw_witness:
  "\<not> f_lt0 exact (balance exact db_ten 1 1)
   \<and> negative_addend_law exact
   \<and> f_lt0 exact (f_add exact (balance exact db_ten 1 1) (- 15))
   \<and> fst (stock_upsert exact db_ten 1 1 (- 15) None issue None)
       = Inl (HTTPException 400 (Insufficient 10 15))
   \<and> snd (stock_upsert exact db_ten 1 1 (- 15) None issue None) = db_ten
   \<and> (\<forall>c' l'. \<not> f_lt0 exact (balance exact db_ten c' l'))"
proof -
  have b: "balance exact db_ten 1 1 = 10"
    by (simp add: db_ten_def db_one_def balance_def query_stock_def at_cell_def)
  have q: "query_stock db_ten 1 1 \<noteq> None"
    by (simp add: db_ten_def db_one_def query_stock_def at_cell_def)
  have all: "\<not> f_lt0 exact (balance exact db_ten c' l')" for c' l'
    by (simp add: db_ten_def db_one_def balance_def query_stock_def at_cell_def)
  from stock_upsert_overdraw [of exact db_ten 1 1 "- 15" None issue None, THEN conjunct1]
    negative_addend_law_exact b q all
  show ?thesis by (auto split: option.splits)
qed

section \<open>Facts about an accepted mutation\<close>

lemma update_first_append_single:
  "find P xs = None \<Longrightarrow> update_first P f (xs @ [y]) = xs @ (if P y then [f y] else [y])"
  by (induction xs) (auto split: if_splits)

lemma stocks_write_audit [simp]: "stocks (write_audit db a e i c l qb qa d p actor) = stocks db"
  by (simp add: write_audit_def)

lemma audit_logs_write_audit:
  "audit_logs (write_audit db a e i c l qb qa d p actor) =
   audit_logs db @
   [\<lparr>AuditLog.id = next_id (map AuditLog.id (audit_logs db)), AuditLog.action_type = a,
     AuditLog.entity_type = e, AuditLog.entity_id = i, AuditLog.component_id = c,
     AuditLog.location_id = l, AuditLog.quantity_before = qb, AuditLog.quantity_after = qa,
     AuditLog.description = d, AuditLog.payload = p, AuditLog.performed_by = actor\<rparr>]"
  by (simp add: write_audit_def)

lemma stocks_set_quantity_fresh:
  "query_stock db c l = None \<Longrightarrow>
   stocks (set_quantity (fst (add_stock ar db c l q0)) c l q) =
   stocks db @ [\<lparr>Stock.id = next_id (map Stock.id (stocks db)), Stock.component_id = c,
                 Stock.location_id = l, Stock.quantity = q, Stock.reserved = f_zero ar\<rparr>]"
  by (simp add: set_quantity_def add_stock_def Let_def query_stock_def update_first_append_single at_cell_def)

lemma length_stocks_set_quantity [simp]: "length (stocks (set_quantity db c l q)) = length (stocks db)"
  by (simp add: set_quantity_def)

section \<open>C2: a mutation that is accepted\<close>

text \<open>
  Claim C2. A call of \<^verbatim>\<open>_stock_upsert\<close> whose result \<open>before + delta\<close> is not below zero, where
  \<open>before\<close> is 0 for a cell without a row and the sum is the float sum the source forms,
  returns the cell's row holding that sum; a cell without a row gets a new one; the ledger
  grows by exactly one entry, which records \<open>before\<close>, the sum, and the action type,
  description and actor that were passed, so that its \<open>quantity_after\<close> is the balance of the
  cell right after the call.
\<close>

theorem stock_upsert_applies:
  assumes "\<not> f_lt0 ar (f_add ar (balance ar db c l) delta)"
  shows "(\<exists>stock. fst (stock_upsert ar db c l delta actor k d) = Inr stock
            \<and> Stock.component_id stock = c \<and> Stock.location_id stock = l
            \<and> Stock.quantity stock = f_add ar (balance ar db c l) delta)
       \<and> balance ar (snd (stock_upsert ar db c l delta actor k d)) c l
           = f_add ar (balance ar db c l) delta
       \<and> (query_stock db c l = None \<longrightarrow>
            balance ar db c l = f_zero ar \<and>
            stocks (snd (stock_upsert ar db c l delta actor k d)) =
            stocks db @ [\<lparr>Stock.id = next_id (map Stock.id (stocks db)), Stock.component_id = c,
                          Stock.location_id = l, Stock.quantity = f_add ar (f_zero ar) delta,
                          Stock.reserved = f_zero ar\<rparr>])
       \<and> (query_stock db c l \<noteq> None \<longrightarrow>
            length (stocks (snd (stock_upsert ar db c l delta actor k d))) = length (stocks db))
       \<and> (\<exists>entry. audit_logs (snd (stock_upsert ar db c l delta actor k d)) = audit_logs db @ [entry]
            \<and> AuditLog.component_id entry = Some c \<and> AuditLog.location_id entry = Some l
            \<and> AuditLog.quantity_before entry = Some (balance ar db c l)
            \<and> AuditLog.quantity_after entry = Some (f_add ar (balance ar db c l) delta)
            \<and> AuditLog.action_type entry = k \<and> AuditLog.description entry = d
            \<and> AuditLog.performed_by entry = actor
            \<and> AuditLog.quantity_after entry
                = Some (balance ar (snd (stock_upsert ar db c l delta actor k d)) c l))"
proof (cases "query_stock db c l")
  case None
  then have b: "balance ar db c l = f_zero ar" by (simp add: balance_def)
  with assms have d0: "\<not> f_lt0 ar (f_add ar (f_zero ar) delta)" by simp
  have bal: "balance ar (snd (stock_upsert ar db c l delta actor k d)) c l
      = f_add ar (balance ar db c l) delta"
    using assms by (simp add: balance_stock_upsert)
  show ?thesis
    unfolding bal using None b d0
    by (simp add: stock_upsert_absent Let_def snd_add_stock stocks_set_quantity_fresh
        audit_logs_write_audit)
next
  case (Some stock)
  then have b: "balance ar db c l = Stock.quantity stock" by (simp add: balance_def)
  with assms have d0: "\<not> f_lt0 ar (f_add ar (Stock.quantity stock) delta)" by simp
  have cell: "Stock.component_id stock = c \<and> Stock.location_id stock = l"
    using Some by (auto simp: query_stock_def dest: find_at_cell)
  have bal: "balance ar (snd (stock_upsert ar db c l delta actor k d)) c l
      = f_add ar (balance ar db c l) delta"
    using assms by (simp add: balance_stock_upsert)
  show ?thesis
    unfolding bal using Some b d0 cell
    by (simp add: stock_upsert_present Let_def audit_logs_write_audit)
qed

theorem stock_upsert_applies_witness:
  "\<not> f_lt0 exact (f_add exact (balance exact db_one 1 1) 4) \<and> query_stock db_one 1 1 = None
   \<and> balance exact (snd (stock_upsert exact db_one 1 1 4 None receipt None)) 1 1 = 4
   \<and> length (audit_logs (snd (stock_upsert exact db_one 1 1 4 None receipt None))) = 1"
  using stock_upsert_applies [of exact db_one 1 1 4 None receipt None]
  by (auto simp: db_one_def balance_def query_stock_def at_cell_def)

section \<open>Facts about sequences of mutations\<close>

lemma fst_stock_upsert_cases:
  "(\<exists>e. fst (stock_upsert ar db c l delta actor k d) = Inl e
        \<and> f_lt0 ar (f_add ar (balance ar db c l) delta)) \<or>
   (\<exists>stock. fst (stock_upsert ar db c l delta actor k d) = Inr stock
        \<and> \<not> f_lt0 ar (f_add ar (balance ar db c l) delta))"
proof (cases "f_lt0 ar (f_add ar (balance ar db c l) delta)")
  case True
  then show ?thesis by (simp add: stock_upsert_raises)
next
  case False
  from stock_upsert_returns [OF this] False show ?thesis by auto
qed

lemma apply_mutations_balance:
  "balance ar (snd (apply_mutations ar db ms)) c l =
   foldl (f_add ar) (balance ar db c l) (accepted_deltas c l ms (fst (apply_mutations ar db ms)))"
proof (induction ms arbitrary: db)
  case Nil
  show ?case by simp
next
  case (Cons m ms)
  obtain r db1 where step: "apply_mutation ar db m = (r, db1)" by (cases "apply_mutation ar db m")
  obtain rs db2 where rest: "apply_mutations ar db1 ms = (rs, db2)"
    by (cases "apply_mutations ar db1 ms")
  have ih: "balance ar db2 c l = foldl (f_add ar) (balance ar db1 c l) (accepted_deltas c l ms rs)"
    using Cons.IH [of db1] rest by simp
  have b1: "balance ar db1 c l =
      (if c = m_component_id m \<and> l = m_location_id m \<and>
          \<not> f_lt0 ar (f_add ar (balance ar db (m_component_id m) (m_location_id m)) (m_delta m))
       then f_add ar (balance ar db (m_component_id m) (m_location_id m)) (m_delta m)
       else balance ar db c l)"
    using step balance_stock_upsert [of ar db "m_component_id m" "m_location_id m" "m_delta m"
        "m_performed_by m" "m_action_type m" "m_description m" c l]
    by (simp add: apply_mutation_def)
  from fst_stock_upsert_cases [of ar db "m_component_id m" "m_location_id m" "m_delta m"
        "m_performed_by m" "m_action_type m" "m_description m"]
  show ?case
  proof (elim disjE exE conjE)
    fix e
    assume "fst (stock_upsert ar db (m_component_id m) (m_location_id m) (m_delta m)
              (m_performed_by m) (m_action_type m) (m_description m)) = Inl e"
      and neg: "f_lt0 ar (f_add ar (balance ar db (m_component_id m) (m_location_id m)) (m_delta m))"
    then have r: "r = Inl e" using step by (simp add: apply_mutation_def)
    show ?thesis using step rest r ih b1 neg by simp
  next
    fix stock
    assume "fst (stock_upsert ar db (m_component_id m) (m_location_id m) (m_delta m)
              (m_performed_by m) (m_action_type m) (m_description m)) = Inr stock"
      and pos: "\<not> f_lt0 ar (f_add ar (balance ar db (m_component_id m) (m_location_id m)) (m_delta m))"
    then have r: "r = Inr stock" using step by (simp add: apply_mutation_def)
    show ?thesis using step rest r ih b1 pos by auto
  qed
qed

lemma length_apply_mutations: "length (fst (apply_mutations ar db ms)) = length ms"
proof (induction ms arbitrary: db)
  case Nil
  show ?case by simp
next
  case (Cons m ms)
  obtain r db1 where step: "apply_mutation ar db m = (r, db1)" by (cases "apply_mutation ar db m")
  obtain rs db2 where rest: "apply_mutations ar db1 ms = (rs, db2)"
    by (cases "apply_mutations ar db1 ms")
  from Cons.IH [of db1] rest have "length rs = length ms" by simp
  with step rest show ?case by simp
qed

section \<open>C8: the balance is the sum of the accepted deltas\<close>

text \<open>
  Claim C8. After any finite sequence of \<^verbatim>\<open>_stock_upsert\<close> calls, the balance of a cell that
  had no row at the start is the sum of the deltas of the calls to that cell that returned; a
  call that raised adds nothing. The sum is the one the source's arithmetic forms as the calls
  come: from 0, one float addition per accepted delta, in call order. Every call has an
  outcome.
\<close>

theorem balance_is_sum_of_accepted_deltas:
  assumes "query_stock db c l = None"
  shows "balance ar (snd (apply_mutations ar db ms)) c l =
         f_sum ar (accepted_deltas c l ms (fst (apply_mutations ar db ms)))
       \<and> length (fst (apply_mutations ar db ms)) = length ms"
proof -
  from assms have "balance ar db c l = f_zero ar" by (simp add: balance_def)
  then show ?thesis
    using apply_mutations_balance [of ar db ms c l]
    by (simp add: f_sum_def length_apply_mutations)
qed

theorem balance_is_sum_of_accepted_deltas_witness:
  "query_stock db_one 1 1 = None \<and>
   fst (apply_mutations exact db_one
     [\<lparr>m_component_id = 1, m_location_id = 1, m_delta = 10, m_performed_by = None,
        m_action_type = receipt, m_description = None\<rparr>,
      \<lparr>m_component_id = 1, m_location_id = 1, m_delta = - 15, m_performed_by = None,
        m_action_type = issue, m_description = None\<rparr>,
      \<lparr>m_component_id = 1, m_location_id = 1, m_delta = - 4, m_performed_by = None,
        m_action_type = issue, m_description = None\<rparr>])
     = [Inr \<lparr>Stock.id = 1, Stock.component_id = 1, Stock.location_id = 1,
             Stock.quantity = 10, Stock.reserved = 0\<rparr>,
        Inl (HTTPException 400 (Insufficient 10 15)),
        Inr \<lparr>Stock.id = 1, Stock.component_id = 1, Stock.location_id = 1,
             Stock.quantity = 6, Stock.reserved = 0\<rparr>] \<and>
   balance exact (snd (apply_mutations exact db_one
     [\<lparr>m_component_id = 1, m_location_id = 1, m_delta = 10, m_performed_by = None,
        m_action_type = receipt, m_description = None\<rparr>,
      \<lparr>m_component_id = 1, m_location_id = 1, m_delta = - 15, m_performed_by = None,
        m_action_type = issue, m_description = None\<rparr>,
      \<lparr>m_component_id = 1, m_location_id = 1, m_delta = - 4, m_performed_by = None,
        m_action_type = issue, m_description = None\<rparr>])) 1 1 = 6"
  using balance_is_sum_of_accepted_deltas [of db_one 1 1 exact
     "[\<lparr>m_component_id = 1, m_location_id = 1, m_delta = 10, m_performed_by = None,
        m_action_type = receipt, m_description = None\<rparr>,
      \<lparr>m_component_id = 1, m_location_id = 1, m_delta = - 15, m_performed_by = None,
        m_action_type = issue, m_description = None\<rparr>,
      \<lparr>m_component_id = 1, m_location_id = 1, m_delta = - 4, m_performed_by = None,
        m_action_type = issue, m_description = None\<rparr>]"]
  by (simp add: db_one_def query_stock_def apply_mutation_def stock_upsert_def add_stock_def
      set_quantity_def write_audit_def at_cell_def Let_def f_sum_def next_id_def)

section \<open>Facts about the confirmation loops and the session\<close>

lemma confirm_issue_items_append:
  "confirm_issue_items ar db num actor (xs @ ys) =
   (case confirm_issue_items ar db num actor xs of
      (Inl e, db1) \<Rightarrow> (Inl e, db1)
    | (Inr u, db1) \<Rightarrow> confirm_issue_items ar db1 num actor ys)"
  by (induction xs arbitrary: db) (auto split: prod.splits sum.splits)

lemma confirm_receipt_items_append:
  "confirm_receipt_items ar db num actor (xs @ ys) =
   (case confirm_receipt_items ar db num actor xs of
      (Inl e, db1) \<Rightarrow> (Inl e, db1)
    | (Inr u, db1) \<Rightarrow> confirm_receipt_items ar db1 num actor ys)"
  by (induction xs arbitrary: db) (auto split: prod.splits sum.splits)

lemma confirm_issue_items_overdraw:
  assumes "confirm_issue_items ar db num actor pre = (Inr u, db1)"
    and "f_lt0 ar (f_add ar
           (balance ar db1 (IssueItem.component_id item) (or_1 (IssueItem.location_id item)))
           (f_neg ar (IssueItem.quantity item)))"
  shows "fst (confirm_issue_items ar db num actor (pre @ item # post)) =
         Inl (HTTPException 400 (Insufficient
           (balance ar db1 (IssueItem.component_id item) (or_1 (IssueItem.location_id item)))
           (f_abs ar (f_neg ar (IssueItem.quantity item)))))"
  using assms by (simp add: confirm_issue_items_append stock_upsert_raises)

lemma confirm_receipt_items_overdraw:
  assumes "confirm_receipt_items ar db num actor pre = (Inr u, db1)"
    and "f_lt0 ar (f_add ar
           (balance ar db1 (ReceiptItem.component_id item) (or_1 (ReceiptItem.location_id item)))
           (ReceiptItem.quantity item))"
  shows "fst (confirm_receipt_items ar db num actor (pre @ item # post)) =
         Inl (HTTPException 400 (Insufficient
           (balance ar db1 (ReceiptItem.component_id item) (or_1 (ReceiptItem.location_id item)))
           (f_abs ar (ReceiptItem.quantity item))))"
  using assms by (simp add: confirm_receipt_items_append stock_upsert_raises)

lemma confirm_issue_raise:
  "fst (confirm_issue ar iss_id actor s) = Inl e \<Longrightarrow> committed (snd (confirm_issue ar iss_id actor s)) = committed s"
  by (auto simp: confirm_issue_def Let_def split: sum.splits if_splits prod.splits)

lemma confirm_receipt_raise:
  "fst (confirm_receipt ar rec_id data s) = Inl e \<Longrightarrow> committed (snd (confirm_receipt ar rec_id data s)) = committed s"
  by (auto simp: confirm_receipt_def Let_def split: sum.splits if_splits prod.splits)

lemma route_raise:
  assumes "\<And>s e. fst (h s) = Inl e \<Longrightarrow> committed (snd (h s)) = committed s"
    and "fst (route v h d) = Inl e"
  shows "snd (route v h d) = d"
proof (cases v)
  case False
  then show ?thesis by (simp add: route_def)
next
  case True
  with assms(2) have "fst (h (SessionLocal d)) = Inl e"
    by (simp add: route_def get_db_def split: prod.splits)
  from assms(1) [OF this] True show ?thesis
    by (auto simp: route_def get_db_def close_def SessionLocal_def split: prod.splits)
qed

lemma post_issues_confirm_fails:
  assumes "(get_or_404 ''issues'' Issue.id (issues d) iss_id :: 'q exn + 'q Issue) = Inr iss"
    and "Issue.status iss = IssueStatus.draft"
    and "fst (confirm_issue_items ar d (Issue.number iss) actor (Issue.items iss)) = Inl e"
  shows "post_issues_confirm ar iss_id actor d = (Inl e, d)"
  using assms
  by (auto simp: post_issues_confirm_def route_def get_db_def SessionLocal_def close_def
      confirm_issue_def split: prod.splits sum.splits)

lemma post_receipts_confirm_fails:
  assumes "(get_or_404 ''receipts'' Receipt.id (receipts d) rec_id :: 'q exn + 'q Receipt) = Inr rcpt"
    and "Receipt.status rcpt = ReceiptStatus.draft"
    and "fst (confirm_receipt_items ar d (Receipt.number rcpt) (ReceiptConfirm.performed_by data)
               (Receipt.items rcpt)) = Inl e"
  shows "post_receipts_confirm ar rec_id data d = (Inl e, d)"
  using assms
  by (auto simp: post_receipts_confirm_def route_def get_db_def SessionLocal_def close_def
      confirm_receipt_def split: prod.splits sum.splits)

section \<open>C3: a confirmation that fails leaves nothing behind\<close>

text \<open>
  Claim C3. Confirming an issue or a receipt is all or nothing. If the mutation of a line raises
  when its turn comes (the lines before it having been applied in the session), the request
  raises that error and the database is the one before the request: the document is still in
  draft, every balance ar has its old value and the ledger has no new entry. More generally the
  database is unchanged whenever the confirmation raises, whatever the reason.
\<close>

theorem confirm_is_all_or_nothing:
  "(\<forall>iss pre item post u db1.
      (get_or_404 ''issues'' Issue.id (issues d) iss_id :: 'q exn + 'q Issue) = Inr iss
      \<and> Issue.status iss = IssueStatus.draft
      \<and> Issue.items iss = pre @ item # post
      \<and> confirm_issue_items ar d (Issue.number iss) actor pre = (Inr u, db1)
      \<and> f_lt0 ar (f_add ar
            (balance ar db1 (IssueItem.component_id item) (or_1 (IssueItem.location_id item)))
            (f_neg ar (IssueItem.quantity item)))
      \<longrightarrow> post_issues_confirm ar iss_id actor d =
          (Inl (HTTPException 400 (Insufficient
             (balance ar db1 (IssueItem.component_id item) (or_1 (IssueItem.location_id item)))
             (f_abs ar (f_neg ar (IssueItem.quantity item))))), d))
   \<and> (\<forall>rcpt pre item post u db1.
      (get_or_404 ''receipts'' Receipt.id (receipts d) rec_id :: 'q exn + 'q Receipt) = Inr rcpt
      \<and> Receipt.status rcpt = ReceiptStatus.draft
      \<and> Receipt.items rcpt = pre @ item # post
      \<and> confirm_receipt_items ar d (Receipt.number rcpt) (ReceiptConfirm.performed_by data) pre
            = (Inr u, db1)
      \<and> f_lt0 ar (f_add ar
            (balance ar db1 (ReceiptItem.component_id item) (or_1 (ReceiptItem.location_id item)))
            (ReceiptItem.quantity item))
      \<longrightarrow> post_receipts_confirm ar rec_id data d =
          (Inl (HTTPException 400 (Insufficient
             (balance ar db1 (ReceiptItem.component_id item) (or_1 (ReceiptItem.location_id item)))
             (f_abs ar (ReceiptItem.quantity item)))), d))
   \<and> (\<forall>e. fst (post_issues_confirm ar iss_id actor d) = Inl e \<longrightarrow>
          snd (post_issues_confirm ar iss_id actor d) = d)
   \<and> (\<forall>e. fst (post_receipts_confirm ar rec_id data d) = Inl e \<longrightarrow>
          snd (post_receipts_confirm ar rec_id data d) = d)"
proof (intro conjI allI impI)
  fix iss pre item post u db1
  assume a: "(get_or_404 ''issues'' Issue.id (issues d) iss_id :: 'q exn + 'q Issue) = Inr iss
      \<and> Issue.status iss = IssueStatus.draft
      \<and> Issue.items iss = pre @ item # post
      \<and> confirm_issue_items ar d (Issue.number iss) actor pre = (Inr u, db1)
      \<and> f_lt0 ar (f_add ar
            (balance ar db1 (IssueItem.component_id item) (or_1 (IssueItem.location_id item)))
            (f_neg ar (IssueItem.quantity item)))"
  then have "fst (confirm_issue_items ar d (Issue.number iss) actor (Issue.items iss)) =
      Inl (HTTPException 400 (Insufficient
             (balance ar db1 (IssueItem.component_id item) (or_1 (IssueItem.location_id item)))
             (f_abs ar (f_neg ar (IssueItem.quantity item)))))"
    using confirm_issue_items_overdraw [of ar d "Issue.number iss" actor pre u db1 item post]
    by simp
  with a show "post_issues_confirm ar iss_id actor d =
          (Inl (HTTPException 400 (Insufficient
             (balance ar db1 (IssueItem.component_id item) (or_1 (IssueItem.location_id item)))
             (f_abs ar (f_neg ar (IssueItem.quantity item))))), d)"
    by (intro post_issues_confirm_fails) auto
next
  fix rcpt pre item post u db1
  assume a: "(get_or_404 ''receipts'' Receipt.id (receipts d) rec_id :: 'q exn + 'q Receipt) = Inr rcpt
      \<and> Receipt.status rcpt = ReceiptStatus.draft
      \<and> Receipt.items rcpt = pre @ item # post
      \<and> confirm_receipt_items ar d (Receipt.number rcpt) (ReceiptConfirm.performed_by data) pre
            = (Inr u, db1)
      \<and> f_lt0 ar (f_add ar
            (balance ar db1 (ReceiptItem.component_id item) (or_1 (ReceiptItem.location_id item)))
            (ReceiptItem.quantity item))"
  then have "fst (confirm_receipt_items ar d (Receipt.number rcpt) (ReceiptConfirm.performed_by data)
                 (Receipt.items rcpt)) =
      Inl (HTTPException 400 (Insufficient
             (balance ar db1 (ReceiptItem.component_id item) (or_1 (ReceiptItem.location_id item)))
             (f_abs ar (ReceiptItem.quantity item))))"
    using confirm_receipt_items_overdraw [of ar d "Receipt.number rcpt"
        "ReceiptConfirm.performed_by data" pre u db1 item post]
    by simp
  with a show "post_receipts_confirm ar rec_id data d =
          (Inl (HTTPException 400 (Insufficient
             (balance ar db1 (ReceiptItem.component_id item) (or_1 (ReceiptItem.location_id item)))
             (f_abs ar (ReceiptItem.quantity item)))), d)"
    by (intro post_receipts_confirm_fails) auto
next
  fix e
  assume "fst (post_issues_confirm ar iss_id actor d) = Inl e"
  then show "snd (post_issues_confirm ar iss_id actor d) = d"
    unfolding post_issues_confirm_def
    by (rule route_raise [rotated]) (rule confirm_issue_raise)
next
  fix e
  assume "fst (post_receipts_confirm ar rec_id data d) = Inl e"
  then show "snd (post_receipts_confirm ar rec_id data d) = d"
    unfolding post_receipts_confirm_def
    by (rule route_raise [rotated]) (rule confirm_receipt_raise)
qed


theorem confirm_is_all_or_nothing_witness:
  "(get_or_404 ''issues'' Issue.id (issues db_issue) 1 :: real exn + real Issue) = Inr issue_5_15
   \<and> Issue.status issue_5_15 = IssueStatus.draft
   \<and> balance exact (snd (confirm_issue_items exact db_issue ''RN-1'' None [hd (Issue.items issue_5_15)])) 1 1 = 5
   \<and> post_issues_confirm exact 1 None db_issue = (Inl (HTTPException 400 (Insufficient 5 15)), db_issue)
   \<and> (get_or_404 ''receipts'' Receipt.id (receipts db_receipt) 1 :: real exn + real Receipt) = Inr receipt_3
   \<and> post_receipts_confirm exact 1 \<lparr>ReceiptConfirm.performed_by = None\<rparr> db_receipt
       = (Inl (HTTPException 400 (Insufficient (- 10) 3)), db_receipt)"
proof -
  let ?first = "\<lparr>IssueItem.component_id = 1, IssueItem.location_id = Some 0, IssueItem.quantity = 5\<rparr>"
  let ?second = "\<lparr>IssueItem.component_id = 1, IssueItem.location_id = None, IssueItem.quantity = 15\<rparr>"
  let ?line = "\<lparr>ReceiptItem.component_id = 1, ReceiptItem.location_id = Some 1,
                ReceiptItem.quantity = 3, ReceiptItem.price_rub = None\<rparr>"
  let ?db1 = "snd (confirm_issue_items exact db_issue ''RN-1'' None [?first])"
  have found: "(get_or_404 ''issues'' Issue.id (issues db_issue) 1 :: real exn + real Issue) = Inr issue_5_15"
    by (simp add: get_or_404_def db_issue_def issue_5_15_def)
  have first: "confirm_issue_items exact db_issue ''RN-1'' None [?first] = (Inr (), ?db1)"
    by (simp add: db_issue_def db_ten_def db_one_def stock_upsert_def query_stock_def at_cell_def
        or_1_def Let_def)
  have bal: "balance exact ?db1 1 1 = 5"
    by (simp add: db_issue_def db_ten_def db_one_def stock_upsert_def query_stock_def at_cell_def
        or_1_def Let_def balance_def set_quantity_def write_audit_def)
  have foundr: "(get_or_404 ''receipts'' Receipt.id (receipts db_receipt) 1 :: real exn + real Receipt) = Inr receipt_3"
    by (simp add: get_or_404_def db_receipt_def receipt_3_def)
  have balr: "balance exact db_receipt 1 1 = - 10"
    by (simp add: db_receipt_def db_negative_eq balance_def query_stock_def at_cell_def)
  note all = confirm_is_all_or_nothing [where ar = exact and d = db_issue and iss_id = 1 and actor = None and rec_id = 1 and data = "\<lparr>ReceiptConfirm.performed_by = None\<rparr>"]
  note allr = confirm_is_all_or_nothing [where ar = exact and d = db_receipt and iss_id = 1 and actor = None and rec_id = 1 and data = "\<lparr>ReceiptConfirm.performed_by = None\<rparr>"]
  have "post_issues_confirm exact 1 None db_issue = (Inl (HTTPException 400 (Insufficient 5 15)), db_issue)"
    using all [THEN conjunct1, rule_format, of issue_5_15 "[?first]" ?second "[]" "()" ?db1]
      found first bal
    by (simp add: issue_5_15_def or_1_def)
  moreover have "post_receipts_confirm exact 1 \<lparr>ReceiptConfirm.performed_by = None\<rparr> db_receipt
       = (Inl (HTTPException 400 (Insufficient (- 10) 3)), db_receipt)"
    using allr [THEN conjunct2, THEN conjunct1, rule_format, of receipt_3 "[]" ?line "[]" "()" db_receipt]
      foundr balr
    by (simp add: receipt_3_def or_1_def)
  ultimately show ?thesis
    using found foundr bal by (simp add: issue_5_15_def)
qed

section \<open>Facts about a counted line\<close>

lemma get_or_404_member: "c \<in> set xs \<Longrightarrow> int64 c \<Longrightarrow> get_or_404 t (\<lambda>x. x) xs c = Inr c"
  by (induction xs) (auto simp: get_or_404_def)

lemma get_or_404_missing:
  "c \<notin> set xs \<Longrightarrow> int64 c \<Longrightarrow> get_or_404 t (\<lambda>x. x) xs c = Inl (HTTPException 404 (Not_found t c))"
  by (induction xs) (auto simp: get_or_404_def)

lemma get_or_404_overflow: "\<not> int64 c \<Longrightarrow> get_or_404 t ident xs c = Inl OverflowError"
  by (simp add: get_or_404_def)

lemma query_stock_inventories_update [simp]:
  "query_stock (db\<lparr>inventories := v\<rparr>) c l = query_stock db c l"
  by (simp add: query_stock_def)

lemma balance_inventories_update [simp]:
  "balance ar (db\<lparr>inventories := v\<rparr>) c l = balance ar db c l"
  by (simp add: balance_def)

lemma inventories_write_audit [simp]:
  "inventories (write_audit db a e i c l qb qa d p actor) = inventories db"
  by (simp add: write_audit_def)

lemma inventories_set_quantity [simp]: "inventories (set_quantity db c l q) = inventories db"
  by (simp add: set_quantity_def)

lemma inventories_add_stock [simp]: "inventories (fst (add_stock ar db c l q)) = inventories db"
  by (simp add: add_stock_def Let_def)

lemma components_write_audit [simp]:
  "components (write_audit db a e i c l qb qa d p actor) = components db"
  by (simp add: write_audit_def)

lemma components_set_quantity [simp]: "components (set_quantity db c l q) = components db"
  by (simp add: set_quantity_def)

lemma components_add_stock [simp]: "components (fst (add_stock ar db c l q)) = components db"
  by (simp add: add_stock_def Let_def)

lemma stocks_add_stock:
  "stocks (fst (add_stock ar db c l q)) = stocks db @ [snd (add_stock ar db c l q)]"
  by (simp add: add_stock_def Let_def)

text \<open>The line as one conditional: what the loop body does once the component is found.\<close>

lemma inventory_line_found:
  assumes "c \<in> set (components db)" and "int64 c" and "int64 (or_1 lo)"
  shows "inventory_line ar db inv_id num actor
           \<lparr>InventoryItemCreate.component_id = c, InventoryItemCreate.location_id = lo,
            InventoryItemCreate.actual_quantity = a\<rparr> =
   (let l = or_1 lo; e = balance ar db c l;
        db1 = db\<lparr>inventories := update_first (\<lambda>r. Inventory.id r = inv_id)
                (\<lambda>r. r\<lparr>Inventory.items := Inventory.items r @
                   [\<lparr>InventoryItem.component_id = c, InventoryItem.location_id = Some l,
                     InventoryItem.expected_quantity = e, InventoryItem.actual_quantity = a,
                     InventoryItem.discrepancy = f_sub ar a e\<rparr>]\<rparr>) (inventories db)\<rparr>
    in if f_ne0 ar (f_sub ar a e)
       then (Inr (),
             case query_stock db c l of
               None \<Rightarrow> write_audit (fst (add_stock ar db1 c l a)) inventory ''stock''
                         (Some (Stock.id (snd (add_stock ar db1 c l a)))) (Some c) (Some l)
                         (Some e) (Some a) (Some (Inventory_discrepancy num (f_sub ar a e))) None actor
             | Some stock \<Rightarrow> write_audit (set_quantity db1 c l a) inventory ''stock''
                         (Some (Stock.id stock)) (Some c) (Some l)
                         (Some e) (Some a) (Some (Inventory_discrepancy num (f_sub ar a e))) None actor)
       else (Inr (), db1))"
  using assms
  by (cases "query_stock db c (or_1 lo)")
     (simp_all add: inventory_line_def get_or_404_member Let_def balance_def add_stock_def)

lemma inventory_line_raises:
  assumes "c \<notin> set (components db) \<or> \<not> int64 c \<or> \<not> int64 (or_1 lo)"
  shows "\<exists>e. inventory_line ar db inv_id num actor
           \<lparr>InventoryItemCreate.component_id = c, InventoryItemCreate.location_id = lo,
            InventoryItemCreate.actual_quantity = a\<rparr> = (Inl e, db)"
proof (cases "int64 c")
  case False
  then show ?thesis by (simp add: inventory_line_def get_or_404_overflow)
next
  case True
  show ?thesis
  proof (cases "c \<in> set (components db)")
    case False
    with True show ?thesis by (simp add: inventory_line_def get_or_404_missing)
  next
    case c: True
    with True assms have "\<not> int64 (or_1 lo)" by simp
    with True c show ?thesis by (simp add: inventory_line_def get_or_404_member Let_def)
  qed
qed




section \<open>Facts about a count request\<close>

lemma fold_max_ge: "(a::int) \<le> fold max xs a"
  by (induction xs arbitrary: a) (auto intro: order_trans [OF max.cobounded2])

lemma fold_max_member: "(x::int) \<in> set xs \<Longrightarrow> x \<le> fold max xs a"
proof (induction xs arbitrary: a)
  case Nil
  then show ?case by simp
next
  case (Cons y ys)
  show ?case
  proof (cases "x = y")
    case True
    have "y \<le> max y a" by simp
    also have "\<dots> \<le> fold max ys (max y a)" by (rule fold_max_ge)
    finally show ?thesis using True by simp
  next
    case False
    with Cons show ?thesis by simp
  qed
qed

lemma next_id_fresh: "next_id ids \<notin> set ids"
proof
  assume "next_id ids \<in> set ids"
  from fold_max_member [OF this, of 0] show False by (simp add: next_id_def)
qed

lemma find_next_id: "find (\<lambda>r. ident r = next_id (map ident rows)) rows = None"
proof -
  have "ident r \<noteq> next_id (map ident rows)" if "r \<in> set rows" for r
    using next_id_fresh [of "map ident rows"] that by (metis image_eqI set_map)
  then show ?thesis by (simp add: find_None_iff)
qed

lemma find_new_row:
  "ident row = next_id (map ident rows) \<Longrightarrow>
   find (\<lambda>r. ident r = next_id (map ident rows)) (rows @ [row]) = Some row"
  by (simp add: find_append_single find_next_id)

lemma inventory_line_row:
  assumes "find (\<lambda>r. Inventory.id r = inv_id) (inventories db) = Some row"
  shows "\<exists>its. find (\<lambda>r. Inventory.id r = inv_id)
           (inventories (snd (inventory_line ar db inv_id num actor item_data)))
         = Some (row\<lparr>Inventory.items := its\<rparr>)"
proof -
  obtain c lo a where item: "item_data =
      \<lparr>InventoryItemCreate.component_id = c, InventoryItemCreate.location_id = lo,
       InventoryItemCreate.actual_quantity = a\<rparr>"
    by (cases item_data)
  show ?thesis
  proof (cases "c \<in> set (components db) \<and> int64 c \<and> int64 (or_1 lo)")
    case False
    then have "c \<notin> set (components db) \<or> \<not> int64 c \<or> \<not> int64 (or_1 lo)" by blast
    from inventory_line_raises [OF this, of ar inv_id num actor a] assms show ?thesis
      unfolding item by (intro exI [of _ "Inventory.items row"]) auto
  next
    case True
    let ?line = "\<lparr>InventoryItem.component_id = c, InventoryItem.location_id = Some (or_1 lo),
                     InventoryItem.expected_quantity = balance ar db c (or_1 lo),
                     InventoryItem.actual_quantity = a,
                     InventoryItem.discrepancy = f_sub ar a (balance ar db c (or_1 lo))\<rparr>"
    from True assms show ?thesis
      unfolding item
      by (intro exI [of _ "Inventory.items row @ [?line]"])
         (simp add: inventory_line_found Let_def find_update_first_same split: option.splits)
  qed
qed

lemma create_inventory_items_row:
  "find (\<lambda>r. Inventory.id r = inv_id) (inventories db) = Some row \<Longrightarrow>
   \<exists>its. find (\<lambda>r. Inventory.id r = inv_id)
           (inventories (snd (create_inventory_items ar db inv_id num actor lines)))
         = Some (row\<lparr>Inventory.items := its\<rparr>)"
proof (induction lines arbitrary: db row)
  case Nil
  then show ?case by (intro exI [of _ "Inventory.items row"]) simp
next
  case (Cons item_data rest)
  obtain r db1 where step: "inventory_line ar db inv_id num actor item_data = (r, db1)"
    by (cases "inventory_line ar db inv_id num actor item_data")
  from inventory_line_row [OF Cons.prems, of ar num actor item_data] step
  obtain its where f: "find (\<lambda>r. Inventory.id r = inv_id) (inventories db1)
      = Some (row\<lparr>Inventory.items := its\<rparr>)"
    by auto
  show ?case
  proof (cases r)
    case (Inl e)
    with f step show ?thesis by auto
  next
    case (Inr u)
    from Cons.IH [OF f, of ] Inr step show ?thesis by auto
  qed
qed


section \<open>C5: the lines of a count\<close>



section \<open>Facts about confirm and cancel requests\<close>

lemma update_first_fixed: "find P xs = Some r \<Longrightarrow> f r = r \<Longrightarrow> update_first P f xs = xs"
  by (induction xs) (auto split: if_splits)

lemma get_or_404_Inr:
  "get_or_404 t ident rows i = Inr r \<longleftrightarrow> int64 i \<and> find (\<lambda>x. ident x = i) rows = Some r"
  by (simp add: get_or_404_def split: option.splits)

lemma get_or_404_found:
  "int64 i \<Longrightarrow> find (\<lambda>x. ident x = i) rows = Some r \<Longrightarrow> get_or_404 t ident rows i = Inr r"
  by (simp add: get_or_404_def)

lemma find_id: "find (\<lambda>x. ident x = i) rows = Some r \<Longrightarrow> ident r = i"
  by (induction rows) (auto split: if_splits)

lemma route_True:
  "route True h d = (fst (h (SessionLocal d)), committed (snd (h (SessionLocal d))))"
  by (simp add: route_def get_db_def close_def split: prod.splits)

lemma confirm_receipt_processed:
  "int64 rec_id \<Longrightarrow> find (\<lambda>x. Receipt.id x = rec_id) (receipts d) = Some rcpt \<Longrightarrow>
   Receipt.status rcpt \<noteq> ReceiptStatus.draft \<Longrightarrow>
   post_receipts_confirm ar rec_id data d = (Inl (HTTPException 400 Already_processed), d)"
  by (simp add: post_receipts_confirm_def route_True confirm_receipt_def get_or_404_found SessionLocal_def)

lemma confirm_issue_processed:
  "int64 iss_id \<Longrightarrow> find (\<lambda>x. Issue.id x = iss_id) (issues d) = Some iss \<Longrightarrow>
   Issue.status iss \<noteq> IssueStatus.draft \<Longrightarrow>
   post_issues_confirm ar iss_id actor d = (Inl (HTTPException 400 Already_processed), d)"
  by (simp add: post_issues_confirm_def route_True confirm_issue_def get_or_404_found SessionLocal_def)

lemma cancel_receipt_confirmed:
  "int64 rec_id \<Longrightarrow> find (\<lambda>x. Receipt.id x = rec_id) (receipts d) = Some rcpt \<Longrightarrow>
   Receipt.status rcpt = ReceiptStatus.confirmed \<Longrightarrow>
   post_receipts_cancel rec_id d = (Inl (HTTPException 400 Cannot_cancel_confirmed), d)"
  by (simp add: post_receipts_cancel_def route_True cancel_receipt_def get_or_404_found SessionLocal_def)

lemma cancel_issue_confirmed:
  "int64 iss_id \<Longrightarrow> find (\<lambda>x. Issue.id x = iss_id) (issues d) = Some iss \<Longrightarrow>
   Issue.status iss = IssueStatus.confirmed \<Longrightarrow>
   post_issues_cancel iss_id d = (Inl (HTTPException 400 Cannot_cancel_confirmed), d)"
  by (simp add: post_issues_cancel_def route_True cancel_issue_def get_or_404_found SessionLocal_def)

lemma cancel_receipt_open:
  "int64 rec_id \<Longrightarrow> find (\<lambda>x. Receipt.id x = rec_id) (receipts d) = Some rcpt \<Longrightarrow>
   Receipt.status rcpt \<noteq> ReceiptStatus.confirmed \<Longrightarrow>
   post_receipts_cancel rec_id d =
   (Inr (rcpt\<lparr>Receipt.status := ReceiptStatus.cancelled\<rparr>),
    d\<lparr>receipts := update_first (\<lambda>r. Receipt.id r = rec_id)
          (\<lambda>r. r\<lparr>Receipt.status := ReceiptStatus.cancelled\<rparr>) (receipts d)\<rparr>)"
  by (simp add: post_receipts_cancel_def route_True cancel_receipt_def get_or_404_found
      SessionLocal_def commit_def Let_def)

lemma cancel_issue_open:
  "int64 iss_id \<Longrightarrow> find (\<lambda>x. Issue.id x = iss_id) (issues d) = Some iss \<Longrightarrow>
   Issue.status iss \<noteq> IssueStatus.confirmed \<Longrightarrow>
   post_issues_cancel iss_id d =
   (Inr (iss\<lparr>Issue.status := IssueStatus.cancelled\<rparr>),
    d\<lparr>issues := update_first (\<lambda>r. Issue.id r = iss_id)
          (\<lambda>r. r\<lparr>Issue.status := IssueStatus.cancelled\<rparr>) (issues d)\<rparr>)"
  by (simp add: post_issues_cancel_def route_True cancel_issue_def get_or_404_found
      SessionLocal_def commit_def Let_def)

lemma cancel_receipt_cancelled:
  assumes "int64 rec_id" and "find (\<lambda>x. Receipt.id x = rec_id) (receipts d) = Some rcpt"
    and "Receipt.status rcpt = ReceiptStatus.cancelled"
  shows "post_receipts_cancel rec_id d = (Inr rcpt, d)"
proof -
  have "rcpt\<lparr>Receipt.status := ReceiptStatus.cancelled\<rparr> = rcpt"
    using assms(3) by simp
  moreover from this assms(2)
  have "update_first (\<lambda>r. Receipt.id r = rec_id)
          (\<lambda>r. r\<lparr>Receipt.status := ReceiptStatus.cancelled\<rparr>) (receipts d) = receipts d"
    by (intro update_first_fixed)
  ultimately show ?thesis
    using assms by (simp add: cancel_receipt_open)
qed

lemma cancel_issue_cancelled:
  assumes "int64 iss_id" and "find (\<lambda>x. Issue.id x = iss_id) (issues d) = Some iss"
    and "Issue.status iss = IssueStatus.cancelled"
  shows "post_issues_cancel iss_id d = (Inr iss, d)"
proof -
  have "iss\<lparr>Issue.status := IssueStatus.cancelled\<rparr> = iss"
    using assms(3) by simp
  moreover from this assms(2)
  have "update_first (\<lambda>r. Issue.id r = iss_id)
          (\<lambda>r. r\<lparr>Issue.status := IssueStatus.cancelled\<rparr>) (issues d) = issues d"
    by (intro update_first_fixed)
  ultimately show ?thesis
    using assms by (simp add: cancel_issue_open)
qed

text \<open>What a cancel request stores when the document is in draft.\<close>

lemma cancel_receipt_draft:
  assumes "int64 rec_id" and "find (\<lambda>x. Receipt.id x = rec_id) (receipts d) = Some rcpt"
    and "Receipt.status rcpt = ReceiptStatus.draft"
  shows "post_receipts_cancel rec_id d =
           (Inr (rcpt\<lparr>Receipt.status := ReceiptStatus.cancelled\<rparr>),
            d\<lparr>receipts := update_first (\<lambda>r. Receipt.id r = rec_id)
                  (\<lambda>r. r\<lparr>Receipt.status := ReceiptStatus.cancelled\<rparr>) (receipts d)\<rparr>)
         \<and> find (\<lambda>x. Receipt.id x = rec_id) (receipts (snd (post_receipts_cancel rec_id d)))
             = Some (rcpt\<lparr>Receipt.status := ReceiptStatus.cancelled\<rparr>)"
proof -
  from assms(3) have nc: "Receipt.status rcpt \<noteq> ReceiptStatus.confirmed" by simp
  show ?thesis
    using assms(2) by (simp add: cancel_receipt_open [OF assms(1,2) nc] find_update_first_same)
qed

lemma cancel_issue_draft:
  assumes "int64 iss_id" and "find (\<lambda>x. Issue.id x = iss_id) (issues d) = Some iss"
    and "Issue.status iss = IssueStatus.draft"
  shows "post_issues_cancel iss_id d =
           (Inr (iss\<lparr>Issue.status := IssueStatus.cancelled\<rparr>),
            d\<lparr>issues := update_first (\<lambda>r. Issue.id r = iss_id)
                  (\<lambda>r. r\<lparr>Issue.status := IssueStatus.cancelled\<rparr>) (issues d)\<rparr>)
         \<and> find (\<lambda>x. Issue.id x = iss_id) (issues (snd (post_issues_cancel iss_id d)))
             = Some (iss\<lparr>Issue.status := IssueStatus.cancelled\<rparr>)"
proof -
  from assms(3) have nc: "Issue.status iss \<noteq> IssueStatus.confirmed" by simp
  show ?thesis
    using assms(2) by (simp add: cancel_issue_open [OF assms(1,2) nc] find_update_first_same)
qed

lemma db_cancelled_eq:
  "db_cancelled = db_receipt\<lparr>receipts := [receipt_3\<lparr>Receipt.status := ReceiptStatus.cancelled\<rparr>]\<rparr>"
proof -
  have f: "find (\<lambda>x. Receipt.id x = 1) (receipts db_receipt) = Some receipt_3"
    by (simp add: db_receipt_def receipt_3_def)
  have s: "Receipt.status receipt_3 \<noteq> ReceiptStatus.confirmed"
    by (simp add: receipt_3_def)
  have i: "int64 1" by simp
  show ?thesis
    unfolding db_cancelled_def cancel_receipt_open [OF i f s]
    by (simp add: db_receipt_def receipt_3_def)
qed

section \<open>C7: documents that were confirmed or cancelled\<close>

text \<open>
  Claim C7, as the code has it, for the requests as a whole (the handler, its commit, and the
  session closed) and a document whose id the database can hold. For a receipt or an issue
  that is no longer in draft, a confirm attempt raises HTTP 400 (already processed) and leaves
  the database as it was. A cancel attempt on a confirmed document raises HTTP 400 (a confirmed
  document cannot be cancelled) and leaves the database as it was. A cancel attempt on a
  cancelled document returns the document and leaves the database as it was: the guard of the
  cancel handlers refuses the confirmed state only. A cancel attempt on a draft returns the
  document as cancelled and stores it: afterwards the database differs from the one before in
  the status of that row alone, which reads cancelled. In no case does a processed document
  change its status.
\<close>

theorem processed_documents_keep_their_status:
  "(\<forall>rcpt. int64 rec_id \<and> find (\<lambda>x. Receipt.id x = rec_id) (receipts d) = Some rcpt \<longrightarrow>
      (Receipt.status rcpt \<noteq> ReceiptStatus.draft \<longrightarrow>
         post_receipts_confirm ar rec_id data d = (Inl (HTTPException 400 Already_processed), d))
      \<and> (Receipt.status rcpt = ReceiptStatus.confirmed \<longrightarrow>
         post_receipts_cancel rec_id d = (Inl (HTTPException 400 Cannot_cancel_confirmed), d))
      \<and> (Receipt.status rcpt = ReceiptStatus.cancelled \<longrightarrow>
         post_receipts_cancel rec_id d = (Inr rcpt, d))
      \<and> (Receipt.status rcpt = ReceiptStatus.draft \<longrightarrow>
         post_receipts_cancel rec_id d =
           (Inr (rcpt\<lparr>Receipt.status := ReceiptStatus.cancelled\<rparr>),
            d\<lparr>receipts := update_first (\<lambda>r. Receipt.id r = rec_id)
                  (\<lambda>r. r\<lparr>Receipt.status := ReceiptStatus.cancelled\<rparr>) (receipts d)\<rparr>)
         \<and> find (\<lambda>x. Receipt.id x = rec_id) (receipts (snd (post_receipts_cancel rec_id d)))
             = Some (rcpt\<lparr>Receipt.status := ReceiptStatus.cancelled\<rparr>)))
   \<and> (\<forall>iss. int64 iss_id \<and> find (\<lambda>x. Issue.id x = iss_id) (issues d) = Some iss \<longrightarrow>
      (Issue.status iss \<noteq> IssueStatus.draft \<longrightarrow>
         post_issues_confirm ar iss_id actor d = (Inl (HTTPException 400 Already_processed), d))
      \<and> (Issue.status iss = IssueStatus.confirmed \<longrightarrow>
         post_issues_cancel iss_id d = (Inl (HTTPException 400 Cannot_cancel_confirmed), d))
      \<and> (Issue.status iss = IssueStatus.cancelled \<longrightarrow>
         post_issues_cancel iss_id d = (Inr iss, d))
      \<and> (Issue.status iss = IssueStatus.draft \<longrightarrow>
         post_issues_cancel iss_id d =
           (Inr (iss\<lparr>Issue.status := IssueStatus.cancelled\<rparr>),
            d\<lparr>issues := update_first (\<lambda>r. Issue.id r = iss_id)
                  (\<lambda>r. r\<lparr>Issue.status := IssueStatus.cancelled\<rparr>) (issues d)\<rparr>)
         \<and> find (\<lambda>x. Issue.id x = iss_id) (issues (snd (post_issues_cancel iss_id d)))
             = Some (iss\<lparr>Issue.status := IssueStatus.cancelled\<rparr>)))"
proof -
  have r: "(Receipt.status rcpt \<noteq> ReceiptStatus.draft \<longrightarrow>
         post_receipts_confirm ar rec_id data d = (Inl (HTTPException 400 Already_processed), d))
      \<and> (Receipt.status rcpt = ReceiptStatus.confirmed \<longrightarrow>
         post_receipts_cancel rec_id d = (Inl (HTTPException 400 Cannot_cancel_confirmed), d))
      \<and> (Receipt.status rcpt = ReceiptStatus.cancelled \<longrightarrow>
         post_receipts_cancel rec_id d = (Inr rcpt, d))
      \<and> (Receipt.status rcpt = ReceiptStatus.draft \<longrightarrow>
         post_receipts_cancel rec_id d =
           (Inr (rcpt\<lparr>Receipt.status := ReceiptStatus.cancelled\<rparr>),
            d\<lparr>receipts := update_first (\<lambda>r. Receipt.id r = rec_id)
                  (\<lambda>r. r\<lparr>Receipt.status := ReceiptStatus.cancelled\<rparr>) (receipts d)\<rparr>)
         \<and> find (\<lambda>x. Receipt.id x = rec_id) (receipts (snd (post_receipts_cancel rec_id d)))
             = Some (rcpt\<lparr>Receipt.status := ReceiptStatus.cancelled\<rparr>))"
    if "int64 rec_id \<and> find (\<lambda>x. Receipt.id x = rec_id) (receipts d) = Some rcpt" for rcpt
  proof -
    from that have i: "int64 rec_id" and f: "find (\<lambda>x. Receipt.id x = rec_id) (receipts d) = Some rcpt"
      by simp_all
    from confirm_receipt_processed [OF i f] cancel_receipt_confirmed [OF i f]
      cancel_receipt_cancelled [OF i f] cancel_receipt_draft [OF i f]
    show ?thesis by blast
  qed
  have s: "(Issue.status iss \<noteq> IssueStatus.draft \<longrightarrow>
         post_issues_confirm ar iss_id actor d = (Inl (HTTPException 400 Already_processed), d))
      \<and> (Issue.status iss = IssueStatus.confirmed \<longrightarrow>
         post_issues_cancel iss_id d = (Inl (HTTPException 400 Cannot_cancel_confirmed), d))
      \<and> (Issue.status iss = IssueStatus.cancelled \<longrightarrow>
         post_issues_cancel iss_id d = (Inr iss, d))
      \<and> (Issue.status iss = IssueStatus.draft \<longrightarrow>
         post_issues_cancel iss_id d =
           (Inr (iss\<lparr>Issue.status := IssueStatus.cancelled\<rparr>),
            d\<lparr>issues := update_first (\<lambda>r. Issue.id r = iss_id)
                  (\<lambda>r. r\<lparr>Issue.status := IssueStatus.cancelled\<rparr>) (issues d)\<rparr>)
         \<and> find (\<lambda>x. Issue.id x = iss_id) (issues (snd (post_issues_cancel iss_id d)))
             = Some (iss\<lparr>Issue.status := IssueStatus.cancelled\<rparr>))"
    if "int64 iss_id \<and> find (\<lambda>x. Issue.id x = iss_id) (issues d) = Some iss" for iss
  proof -
    from that have i: "int64 iss_id" and f: "find (\<lambda>x. Issue.id x = iss_id) (issues d) = Some iss"
      by simp_all
    from confirm_issue_processed [OF i f] cancel_issue_confirmed [OF i f]
      cancel_issue_cancelled [OF i f] cancel_issue_draft [OF i f]
    show ?thesis by blast
  qed
  from r s show ?thesis by blast
qed

theorem processed_documents_keep_their_status_witness:
  "int64 1
   \<and> find (\<lambda>x. Receipt.id x = 1) (receipts db_cancelled)
     = Some (receipt_3\<lparr>Receipt.status := ReceiptStatus.cancelled\<rparr>)
   \<and> post_receipts_confirm exact 1 \<lparr>ReceiptConfirm.performed_by = None\<rparr> db_cancelled
       = (Inl (HTTPException 400 Already_processed), db_cancelled)
   \<and> find (\<lambda>x. Issue.id x = 1) (issues db_issue) = Some issue_5_15
   \<and> Issue.status issue_5_15 = IssueStatus.draft
   \<and> fst (post_issues_cancel 1 db_issue)
       = Inr (issue_5_15\<lparr>Issue.status := IssueStatus.cancelled\<rparr>)
   \<and> issues (snd (post_issues_cancel 1 db_issue))
       = [issue_5_15\<lparr>Issue.status := IssueStatus.cancelled\<rparr>]
   \<and> stocks (snd (post_issues_cancel 1 db_issue)) = stocks db_issue
   \<and> audit_logs (snd (post_issues_cancel 1 db_issue)) = audit_logs db_issue"
proof -
  have r: "find (\<lambda>x. Receipt.id x = 1) (receipts db_cancelled)
     = Some (receipt_3\<lparr>Receipt.status := ReceiptStatus.cancelled\<rparr>)"
    by (simp add: db_cancelled_eq receipt_3_def)
  have i: "find (\<lambda>x. Issue.id x = 1) (issues db_issue) = Some issue_5_15"
    by (simp add: db_issue_def issue_5_15_def)
  have st: "Issue.status issue_5_15 = IssueStatus.draft"
    by (simp add: issue_5_15_def)
  have rows: "issues db_issue = [issue_5_15]" "Issue.id issue_5_15 = 1"
    by (simp_all add: db_issue_def issue_5_15_def)
  have one: "int64 1" by simp
  note inst = processed_documents_keep_their_status
    [where ar = exact and rec_id = 1 and d = db_cancelled
       and data = "\<lparr>ReceiptConfirm.performed_by = None\<rparr>" and iss_id = 1 and actor = None]
  note inst' = processed_documents_keep_their_status
    [where ar = exact and rec_id = 1 and d = db_issue
       and data = "\<lparr>ReceiptConfirm.performed_by = None\<rparr>" and iss_id = 1 and actor = None]
  from inst [THEN conjunct1, rule_format, OF conjI [OF one r]]
    inst' [THEN conjunct2, rule_format, OF conjI [OF one i]] r i st one
  show ?thesis by (simp add: rows)
qed

text \<open>
  The claim as written has every cancel attempt on a cancelled document fail. The receipt of
  the example, once cancelled, is cancelled again without an error.
\<close>

theorem cancel_of_cancelled_succeeds:
  "Receipt.status (receipt_3\<lparr>Receipt.status := ReceiptStatus.cancelled\<rparr>) = ReceiptStatus.cancelled
   \<and> find (\<lambda>x. Receipt.id x = 1) (receipts db_cancelled)
       = Some (receipt_3\<lparr>Receipt.status := ReceiptStatus.cancelled\<rparr>)
   \<and> post_receipts_cancel 1 db_cancelled
       = (Inr (receipt_3\<lparr>Receipt.status := ReceiptStatus.cancelled\<rparr>), db_cancelled)"
proof -
  have r: "find (\<lambda>x. Receipt.id x = 1) (receipts db_cancelled)
     = Some (receipt_3\<lparr>Receipt.status := ReceiptStatus.cancelled\<rparr>)"
    by (simp add: db_cancelled_eq receipt_3_def)
  have i: "int64 1" by simp
  from cancel_receipt_cancelled [OF i r] r show ?thesis by simp
qed

section \<open>Facts about what is written to the stock table\<close>

lemma oqw_refl [simp]: "only_quantity_written ar xs xs"
  by (induction xs) auto

lemma oqw_reserved_zero:
  "only_quantity_written ar ys zs \<Longrightarrow> list_all (\<lambda>r. Stock.reserved r = f_zero ar) ys \<Longrightarrow>
   list_all (\<lambda>r. Stock.reserved r = f_zero ar) zs"
proof (induction ar ys zs rule: only_quantity_written.induct)
  case (1 ar new)
  then show ?case by simp
next
  case (2 ar a old)
  then show ?case by simp
next
  case (3 ar a old b new)
  then have eq: "b = a\<lparr>Stock.quantity := Stock.quantity b\<rparr>"
    and rest: "only_quantity_written ar old new"
    and a0: "Stock.reserved a = f_zero ar" and old0: "list_all (\<lambda>r. Stock.reserved r = f_zero ar) old"
    by simp_all
  have "Stock.reserved b = Stock.reserved (a\<lparr>Stock.quantity := Stock.quantity b\<rparr>)"
    by (rule arg_cong [where f = Stock.reserved, OF eq])
  with a0 have "Stock.reserved b = f_zero ar" by simp
  with "3.IH" [OF rest old0] show ?case by simp
qed

lemma oqw_trans:
  "only_quantity_written ar xs ys \<Longrightarrow> only_quantity_written ar ys zs \<Longrightarrow> only_quantity_written ar xs zs"
proof (induction ar xs ys arbitrary: zs rule: only_quantity_written.induct)
  case (1 ar new)
  then show ?case by (simp add: oqw_reserved_zero)
next
  case (2 ar a old)
  then show ?case by simp
next
  case (3 ar a old b new)
  show ?case
  proof (cases zs)
    case Nil
    with 3 show ?thesis by simp
  next
    case (Cons c rest)
    with 3 have bc: "c = b\<lparr>Stock.quantity := Stock.quantity c\<rparr>" and r: "only_quantity_written ar new rest"
      and ab: "b = a\<lparr>Stock.quantity := Stock.quantity b\<rparr>" and o: "only_quantity_written ar old new"
      by simp_all
    have "c = a\<lparr>Stock.quantity := Stock.quantity c\<rparr>"
      by (subst bc, subst ab) simp
    with "3.IH" [OF o r] Cons show ?thesis by simp
  qed
qed

lemma oqw_append: "list_all (\<lambda>r. Stock.reserved r = f_zero ar) new \<Longrightarrow> only_quantity_written ar xs (xs @ new)"
  by (induction xs) auto

lemma oqw_update_first:
  "only_quantity_written ar xs (update_first P (\<lambda>r. r\<lparr>Stock.quantity := q\<rparr>) xs)"
  by (induction xs) auto

lemma oqw_add_stock: "only_quantity_written ar (stocks db) (stocks (fst (add_stock ar db c l q)))"
  by (simp add: add_stock_def Let_def oqw_append)

lemma oqw_set_quantity: "only_quantity_written ar (stocks db) (stocks (set_quantity db c l q))"
  by (simp add: set_quantity_def oqw_update_first)

lemma oqw_stock_upsert:
  "only_quantity_written ar (stocks db) (stocks (snd (stock_upsert ar db c l delta actor k d)))"
proof (cases "query_stock db c l")
  case None
  have "only_quantity_written ar (stocks db) (stocks (set_quantity (fst (add_stock ar db c l (f_zero ar))) c l q))" for q
    by (rule oqw_trans [OF oqw_add_stock oqw_set_quantity])
  with None show ?thesis
    by (simp add: stock_upsert_absent Let_def oqw_add_stock)
next
  case (Some stock)
  then show ?thesis
    by (simp add: stock_upsert_present Let_def oqw_set_quantity)
qed

lemma oqw_confirm_receipt_items:
  "only_quantity_written ar (stocks db) (stocks (snd (confirm_receipt_items ar db num actor lines)))"
proof (induction lines arbitrary: db)
  case Nil
  show ?case by simp
next
  case (Cons item rest)
  let ?step = "stock_upsert ar db (ReceiptItem.component_id item) (or_1 (ReceiptItem.location_id item))
           (ReceiptItem.quantity item) actor receipt (Some (Receipt_by_invoice num))"
  obtain r db1 where step: "?step = (r, db1)" by (cases ?step)
  have s: "only_quantity_written ar (stocks db) (stocks db1)"
    using oqw_stock_upsert [of ar db _ _ _ actor] step by (metis snd_conv)
  show ?case
  proof (cases r)
    case (Inl e)
    with s step show ?thesis by simp
  next
    case (Inr u)
    with oqw_trans [OF s Cons.IH [of db1]] step show ?thesis by simp
  qed
qed

lemma oqw_confirm_issue_items:
  "only_quantity_written ar (stocks db) (stocks (snd (confirm_issue_items ar db num actor lines)))"
proof (induction lines arbitrary: db)
  case Nil
  show ?case by simp
next
  case (Cons item rest)
  let ?step = "stock_upsert ar db (IssueItem.component_id item) (or_1 (IssueItem.location_id item))
           (f_neg ar (IssueItem.quantity item)) actor issue (Some (Issue_by_invoice num))"
  obtain r db1 where step: "?step = (r, db1)" by (cases ?step)
  have s: "only_quantity_written ar (stocks db) (stocks db1)"
    using oqw_stock_upsert [of ar db _ _ _ actor] step by (metis snd_conv)
  show ?case
  proof (cases r)
    case (Inl e)
    with s step show ?thesis by simp
  next
    case (Inr u)
    with oqw_trans [OF s Cons.IH [of db1]] step show ?thesis by simp
  qed
qed

lemma stocks_inventories_update [simp]: "stocks (db\<lparr>inventories := v\<rparr>) = stocks db"
  by simp

lemma oqw_inventory_line:
  "only_quantity_written ar (stocks db) (stocks (snd (inventory_line ar db inv_id num actor item_data)))"
proof -
  obtain c lo a where item: "item_data =
      \<lparr>InventoryItemCreate.component_id = c, InventoryItemCreate.location_id = lo,
       InventoryItemCreate.actual_quantity = a\<rparr>"
    by (cases item_data)
  have add: "only_quantity_written ar (stocks db) (stocks (fst (add_stock ar (db\<lparr>inventories := v\<rparr>) c l q)))"
    for v c l q
    using oqw_add_stock [of ar "db\<lparr>inventories := v\<rparr>" c l q] by simp
  have upd: "only_quantity_written ar (stocks db) (stocks (set_quantity (db\<lparr>inventories := v\<rparr>) c l q))"
    for v c l q
    using oqw_set_quantity [of ar "db\<lparr>inventories := v\<rparr>" c l q] by simp
  show ?thesis
  proof (cases "c \<in> set (components db) \<and> int64 c \<and> int64 (or_1 lo)")
    case True
    then show ?thesis
      unfolding item
      by (simp add: inventory_line_found Let_def add upd split: option.splits)
  next
    case False
    then have "c \<notin> set (components db) \<or> \<not> int64 c \<or> \<not> int64 (or_1 lo)" by blast
    from inventory_line_raises [OF this, of ar inv_id num actor a] show ?thesis
      unfolding item by auto
  qed
qed

lemma oqw_create_inventory_items:
  "only_quantity_written ar (stocks db) (stocks (snd (create_inventory_items ar db inv_id num actor lines)))"
proof (induction lines arbitrary: db)
  case Nil
  show ?case by simp
next
  case (Cons item_data rest)
  obtain r db1 where step: "inventory_line ar db inv_id num actor item_data = (r, db1)"
    by (cases "inventory_line ar db inv_id num actor item_data")
  have s: "only_quantity_written ar (stocks db) (stocks db1)"
    using oqw_inventory_line [of ar db inv_id num actor item_data] step by simp
  show ?case
  proof (cases r)
    case (Inl e)
    with s step show ?thesis by simp
  next
    case (Inr u)
    with oqw_trans [OF s Cons.IH [of db1]] step show ?thesis by simp
  qed
qed

lemma route_frame:
  assumes "\<And>s. only_quantity_written ar (stocks (pending s)) (stocks (pending (snd (h s))))"
    and "\<And>s. committed (snd (h s)) = committed s \<or> committed (snd (h s)) = pending (snd (h s))"
  shows "only_quantity_written ar (stocks d) (stocks (snd (route v h d)))"
proof (cases v)
  case False
  then show ?thesis by (simp add: route_def)
next
  case True
  have r: "snd (route v h d) = committed (snd (h (SessionLocal d)))"
    using True by (simp add: route_True)
  from assms(2) [of "SessionLocal d"] assms(1) [of "SessionLocal d"]
  show ?thesis
    unfolding r by (auto simp: SessionLocal_def)
qed

lemma adjust_stock_frame:
  "only_quantity_written ar (stocks (pending s)) (stocks (pending (snd (adjust_stock ar data s))))"
  by (simp add: adjust_stock_def Let_def commit_def oqw_add_stock oqw_set_quantity case_prod_beta
      split: sum.splits option.splits)

lemma adjust_stock_commits:
  "committed (snd (adjust_stock ar data s)) = committed s \<or>
   committed (snd (adjust_stock ar data s)) = pending (snd (adjust_stock ar data s))"
  by (simp add: adjust_stock_def Let_def commit_def case_prod_beta split: sum.splits option.splits)

lemma receipts_update_stocks [simp]: "stocks (db\<lparr>receipts := v\<rparr>) = stocks db"
  by simp

lemma confirm_receipt_frame:
  "only_quantity_written ar (stocks (pending s)) (stocks (pending (snd (confirm_receipt ar rec_id data s))))"
proof -
  have l: "only_quantity_written ar (stocks (pending s)) (stocks db1)"
    if "confirm_receipt_items ar (pending s) num actor lines = (r, db1)" for num actor lines r db1
    using oqw_confirm_receipt_items [of ar "pending s" num actor lines] that by simp
  show ?thesis
    by (auto simp: confirm_receipt_def Let_def commit_def l split: sum.splits prod.splits)
qed

lemma confirm_receipt_commits:
  "committed (snd (confirm_receipt ar rec_id data s)) = committed s \<or>
   committed (snd (confirm_receipt ar rec_id data s)) = pending (snd (confirm_receipt ar rec_id data s))"
  by (simp add: confirm_receipt_def Let_def commit_def split: sum.splits prod.splits)

lemma confirm_issue_frame:
  "only_quantity_written ar (stocks (pending s)) (stocks (pending (snd (confirm_issue ar iss_id actor s))))"
proof -
  have l: "only_quantity_written ar (stocks (pending s)) (stocks db1)"
    if "confirm_issue_items ar (pending s) num actor lines = (r, db1)" for num lines r db1
    using oqw_confirm_issue_items [of ar "pending s" num actor lines] that by simp
  show ?thesis
    by (auto simp: confirm_issue_def Let_def commit_def l split: sum.splits prod.splits)
qed

lemma confirm_issue_commits:
  "committed (snd (confirm_issue ar iss_id actor s)) = committed s \<or>
   committed (snd (confirm_issue ar iss_id actor s)) = pending (snd (confirm_issue ar iss_id actor s))"
  by (simp add: confirm_issue_def Let_def commit_def split: sum.splits prod.splits)

lemma create_inventory_frame:
  "only_quantity_written ar (stocks (pending s)) (stocks (pending (snd (create_inventory ar data s))))"
proof -
  have l: "only_quantity_written ar (stocks (pending s)) (stocks db1)"
    if "create_inventory_items ar ((pending s)\<lparr>inventories := v\<rparr>) inv_id num actor lines = (r, db1)"
    for v inv_id num actor lines r db1
    using oqw_create_inventory_items [of ar "(pending s)\<lparr>inventories := v\<rparr>" inv_id num actor lines] that
    by simp
  show ?thesis
    by (auto simp: create_inventory_def Let_def commit_def l split: sum.splits prod.splits)
qed

lemma create_inventory_commits:
  "committed (snd (create_inventory ar data s)) = committed s \<or>
   committed (snd (create_inventory ar data s)) = pending (snd (create_inventory ar data s))"
  by (simp add: create_inventory_def Let_def commit_def split: sum.splits prod.splits)

section \<open>C10: nothing but the quantity of a stock row is written\<close>

text \<open>
  Claim C10. The stock mutation, the manual adjustment, the confirmation of a receipt or an
  issue and the processing of an inventory leave every stock row as it was except for its
  \<open>quantity\<close>: in particular \<open>reserved\<close> is unchanged. The rows they add have
  \<open>reserved = 0\<close>. The \<^verbatim>\<open>updated_at\<close> column is set by the database and is not part of the model.
\<close>

theorem reserved_is_never_written:
  "only_quantity_written ar (stocks db) (stocks (snd (stock_upsert ar db c l delta actor k descr)))
   \<and> only_quantity_written ar (stocks d) (stocks (snd (post_stocks_adjust ar adj d)))
   \<and> only_quantity_written ar (stocks d) (stocks (snd (post_receipts_confirm ar rec_id conf d)))
   \<and> only_quantity_written ar (stocks d) (stocks (snd (post_issues_confirm ar iss_id actor d)))
   \<and> only_quantity_written ar (stocks d) (stocks (snd (post_inventories ar cnt d)))"
  unfolding post_stocks_adjust_def post_receipts_confirm_def post_issues_confirm_def
    post_inventories_def
  by (intro conjI oqw_stock_upsert route_frame adjust_stock_frame adjust_stock_commits
      confirm_receipt_frame confirm_receipt_commits confirm_issue_frame confirm_issue_commits
      create_inventory_frame create_inventory_commits)

theorem reserved_is_never_written_witness:
  "stocks (snd (post_stocks_adjust exact (adjust_to 4) db_held))
     = [\<lparr>Stock.id = 1, Stock.component_id = 1, Stock.location_id = 1,
         Stock.quantity = 4, Stock.reserved = 2\<rparr>]
   \<and> only_quantity_written exact (stocks db_held) (stocks (snd (post_stocks_adjust exact (adjust_to 4) db_held)))
   \<and> \<not> only_quantity_written exact (stocks db_held)
         [\<lparr>Stock.id = 1, Stock.component_id = 1, Stock.location_id = 1,
           Stock.quantity = 4, Stock.reserved = 0\<rparr>]"
  using reserved_is_never_written [where ar = exact and db = db_held and c = 1 and l = 1
      and delta = 0 and actor = None and k = adjust and descr = None and d = db_held
      and adj = "adjust_to 4" and rec_id = 1 and conf = "\<lparr>ReceiptConfirm.performed_by = None\<rparr>"
      and iss_id = 1 and cnt = count_7]
  by (simp add: post_stocks_adjust_def route_def valid_StockAdjust_def get_db_def
      SessionLocal_def adjust_stock_def adjust_to_def db_held_def db_one_def get_or_404_def
      query_stock_def at_cell_def set_quantity_def write_audit_def commit_def close_def Let_def)

section \<open>C4: who writes the stock table and the ledger\<close>


section \<open>C6: a manual adjustment to a negative quantity\<close>

text \<open>
  Claim C6 has a target below zero rejected by validation before anything is written. The
  schema \<^verbatim>\<open>StockAdjust\<close> puts no bound on \<open>quantity\<close>, and \<^verbatim>\<open>adjust_stock\<close> has no check:
  the request with target \<open>-10\<close> is valid, returns the new row with quantity \<open>-10\<close>, and the
  database holds that row and a ledger entry from 0 to \<open>-10\<close>.
\<close>

theorem negative_target_is_accepted:
  "valid_StockAdjust exact (adjust_to (- 10))
   \<and> post_stocks_adjust exact (adjust_to (- 10)) db_one =
      (Inr \<lparr>Stock.id = 1, Stock.component_id = 1, Stock.location_id = 1,
            Stock.quantity = - 10, Stock.reserved = 0\<rparr>,
       db_one\<lparr>stocks := [\<lparr>Stock.id = 1, Stock.component_id = 1, Stock.location_id = 1,
                           Stock.quantity = - 10, Stock.reserved = 0\<rparr>],
        audit_logs := [\<lparr>AuditLog.id = 1, AuditLog.action_type = adjust,
          AuditLog.entity_type = ''stock'', AuditLog.entity_id = Some 1,
          AuditLog.component_id = Some 1, AuditLog.location_id = Some 1,
          AuditLog.quantity_before = Some 0, AuditLog.quantity_after = Some (- 10),
          AuditLog.description = None, AuditLog.payload = None,
          AuditLog.performed_by = None\<rparr>]\<rparr>)
   \<and> balance exact (snd (post_stocks_adjust exact (adjust_to (- 10)) db_one)) 1 1 < 0"
  by (simp add: post_stocks_adjust_minus_10 valid_StockAdjust_def)
     (simp add: db_one_def balance_def query_stock_def at_cell_def)

section \<open>Facts about the creation of documents\<close>

lemma create_receipt_items_frame:
  "stocks (snd (create_receipt_items db r_id lines)) = stocks db
   \<and> audit_logs (snd (create_receipt_items db r_id lines)) = audit_logs db"
  by (induction lines arbitrary: db) (auto simp: Let_def split: sum.splits)

lemma create_issue_items_frame:
  "stocks (snd (create_issue_items db i_id lines)) = stocks db
   \<and> audit_logs (snd (create_issue_items db i_id lines)) = audit_logs db"
  by (induction lines arbitrary: db) (auto simp: Let_def split: sum.splits)

lemma create_receipt_items_row:
  fixes db :: "'q Database"
  shows "find (\<lambda>r. Receipt.id r = r_id) (receipts db) = Some row \<Longrightarrow>
   \<exists>its. find (\<lambda>r. Receipt.id r = r_id) (receipts (snd (create_receipt_items db r_id lines)))
     = Some (row\<lparr>Receipt.items := its\<rparr>)"
proof (induction lines arbitrary: db row)
  case Nil
  then show ?case by (intro exI [of _ "Receipt.items row"]) simp
next
  case (Cons item_data rest)
  show ?case
  proof (cases "get_or_404 ''components'' (\<lambda>x. x) (components db)
      (ReceiptItemCreate.component_id item_data) :: 'q exn + int")
    case (Inl e)
    with Cons.prems show ?thesis by (intro exI [of _ "Receipt.items row"]) simp
  next
    case (Inr u)
    let ?item = "\<lparr>ReceiptItem.component_id = ReceiptItemCreate.component_id item_data,
                    ReceiptItem.location_id = ReceiptItemCreate.location_id item_data,
                    ReceiptItem.quantity = ReceiptItemCreate.quantity item_data,
                    ReceiptItem.price_rub = ReceiptItemCreate.price_rub item_data\<rparr>"
    let ?db = "db\<lparr>receipts := update_first (\<lambda>r. Receipt.id r = r_id)
                                (\<lambda>r. r\<lparr>Receipt.items := Receipt.items r @ [?item]\<rparr>) (receipts db)\<rparr>"
    have "find (\<lambda>r. Receipt.id r = r_id) (receipts ?db)
        = Some (row\<lparr>Receipt.items := Receipt.items row @ [?item]\<rparr>)"
      using Cons.prems by (simp add: find_update_first_same)
    from Cons.IH [OF this] Inr show ?thesis by (simp add: Let_def)
  qed
qed

lemma create_issue_items_row:
  fixes db :: "'q Database"
  shows "find (\<lambda>r. Issue.id r = i_id) (issues db) = Some row \<Longrightarrow>
   \<exists>its. find (\<lambda>r. Issue.id r = i_id) (issues (snd (create_issue_items db i_id lines)))
     = Some (row\<lparr>Issue.items := its\<rparr>)"
proof (induction lines arbitrary: db row)
  case Nil
  then show ?case by (intro exI [of _ "Issue.items row"]) simp
next
  case (Cons item_data rest)
  show ?case
  proof (cases "get_or_404 ''components'' (\<lambda>x. x) (components db)
      (IssueItemCreate.component_id item_data) :: 'q exn + int")
    case (Inl e)
    with Cons.prems show ?thesis by (intro exI [of _ "Issue.items row"]) simp
  next
    case (Inr u)
    let ?item = "\<lparr>IssueItem.component_id = IssueItemCreate.component_id item_data,
                    IssueItem.location_id = IssueItemCreate.location_id item_data,
                    IssueItem.quantity = IssueItemCreate.quantity item_data\<rparr>"
    let ?db = "db\<lparr>issues := update_first (\<lambda>r. Issue.id r = i_id)
                                (\<lambda>r. r\<lparr>Issue.items := Issue.items r @ [?item]\<rparr>) (issues db)\<rparr>"
    have "find (\<lambda>r. Issue.id r = i_id) (issues ?db)
        = Some (row\<lparr>Issue.items := Issue.items row @ [?item]\<rparr>)"
      using Cons.prems by (simp add: find_update_first_same)
    from Cons.IH [OF this] Inr show ?thesis by (simp add: Let_def)
  qed
qed


lemma create_receipt_Inr:
  assumes "create_receipt data s = (Inr r, s')"
  shows "Receipt.status r = ReceiptStatus.draft
       \<and> stocks (committed s') = stocks (pending s)
       \<and> audit_logs (committed s') = audit_logs (pending s)
       \<and> find (\<lambda>x. Receipt.id x = Receipt.id r) (receipts (committed s')) = Some r"
proof -
  let ?db = "pending s"
  let ?r_id = "next_id (map Receipt.id (receipts ?db))"
  let ?row = "\<lparr>Receipt.id = ?r_id,
                       Receipt.number = ReceiptCreate.number data,
                       Receipt.supplier_id = ReceiptCreate.supplier_id data,
                       Receipt.status = ReceiptStatus.draft,
                       Receipt.invoice_number = ReceiptCreate.invoice_number data,
                       Receipt.notes' = ReceiptCreate.notes' data,
                       Receipt.created_by = ReceiptCreate.created_by data,
                       Receipt.items = []\<rparr>"
  let ?db1 = "?db\<lparr>receipts := receipts ?db @ [?row]\<rparr>"
  let ?loop = "create_receipt_items ?db1 ?r_id (ReceiptCreate.items data)"
  from assms have ok: "fst ?loop = Inr ()"
    and r: "r = refresh Receipt.id (receipts (snd ?loop)) ?row"
    and s': "s' = commit (s\<lparr>pending := snd ?loop\<rparr>)"
    by (auto simp: create_receipt_def Let_def split: sum.splits if_splits prod.splits)
  have "find (\<lambda>x. Receipt.id x = ?r_id) (receipts ?db1) = Some ?row"
    using find_new_row [of Receipt.id ?row "receipts ?db"] by simp
  from create_receipt_items_row [OF this, of "ReceiptCreate.items data"]
  obtain its where f: "find (\<lambda>x. Receipt.id x = ?r_id) (receipts (snd ?loop))
      = Some (?row\<lparr>Receipt.items := its\<rparr>)"
    by blast
  then have r': "r = ?row\<lparr>Receipt.items := its\<rparr>"
    using r by (simp add: refresh_def)
  show ?thesis
    using f create_receipt_items_frame [of ?db1 ?r_id "ReceiptCreate.items data"]
    by (simp add: r' s' commit_def)
qed

lemma create_issue_Inr:
  assumes "create_issue data s = (Inr r, s')"
  shows "Issue.status r = IssueStatus.draft
       \<and> stocks (committed s') = stocks (pending s)
       \<and> audit_logs (committed s') = audit_logs (pending s)
       \<and> find (\<lambda>x. Issue.id x = Issue.id r) (issues (committed s')) = Some r"
proof -
  let ?db = "pending s"
  let ?i_id = "next_id (map Issue.id (issues ?db))"
  let ?row = "\<lparr>Issue.id = ?i_id,
                    Issue.number = IssueCreate.number data,
                    Issue.department = IssueCreate.department data,
                    Issue.requester = IssueCreate.requester data,
                    Issue.status = IssueStatus.draft,
                    Issue.purpose = IssueCreate.purpose data,
                    Issue.notes' = IssueCreate.notes' data,
                    Issue.created_by = IssueCreate.created_by data,
                    Issue.items = []\<rparr>"
  let ?db1 = "?db\<lparr>issues := issues ?db @ [?row]\<rparr>"
  let ?loop = "create_issue_items ?db1 ?i_id (IssueCreate.items data)"
  from assms have ok: "fst ?loop = Inr ()"
    and r: "r = refresh Issue.id (issues (snd ?loop)) ?row"
    and s': "s' = commit (s\<lparr>pending := snd ?loop\<rparr>)"
    by (auto simp: create_issue_def Let_def split: sum.splits if_splits prod.splits)
  have "find (\<lambda>x. Issue.id x = ?i_id) (issues ?db1) = Some ?row"
    using find_new_row [of Issue.id ?row "issues ?db"] by simp
  from create_issue_items_row [OF this, of "IssueCreate.items data"]
  obtain its where f: "find (\<lambda>x. Issue.id x = ?i_id) (issues (snd ?loop))
      = Some (?row\<lparr>Issue.items := its\<rparr>)"
    by blast
  then have r': "r = ?row\<lparr>Issue.items := its\<rparr>"
    using r by (simp add: refresh_def)
  show ?thesis
    using f create_issue_items_frame [of ?db1 ?i_id "IssueCreate.items data"]
    by (simp add: r' s' commit_def)
qed

lemma route_Inr:
  "fst (route v h d) = Inr r \<Longrightarrow> h (SessionLocal d) = (Inr r, snd (h (SessionLocal d)))
     \<and> snd (route v h d) = committed (snd (h (SessionLocal d)))"
  by (cases v) (auto simp: route_def get_db_def close_def split: prod.splits)



lemma create_inventory_Inr:
  assumes "create_inventory ar data s = (Inr i, s')"
  shows "Inventory.status i = InventoryStatus.completed
       \<and> find (\<lambda>x. Inventory.id x = Inventory.id i) (inventories (committed s')) = Some i"
proof -
  let ?db = "pending s"
  let ?inv_id = "next_id (map Inventory.id (inventories ?db))"
  let ?row = "\<lparr>Inventory.id = ?inv_id,
                    Inventory.number = InventoryCreate.number data,
                    Inventory.status = InventoryStatus.in_progress,
                    Inventory.notes' = InventoryCreate.notes' data,
                    Inventory.created_by = InventoryCreate.created_by data,
                    Inventory.items = []\<rparr>"
  let ?db1 = "?db\<lparr>inventories := inventories ?db @ [?row]\<rparr>"
  let ?loop = "create_inventory_items ar ?db1 ?inv_id (InventoryCreate.number data)
                   (InventoryCreate.created_by data) (InventoryCreate.items data)"
  let ?db3 = "(snd ?loop)\<lparr>inventories := update_first (\<lambda>r. Inventory.id r = ?inv_id)
                            (\<lambda>r. r\<lparr>Inventory.status := InventoryStatus.completed\<rparr>)
                            (inventories (snd ?loop))\<rparr>"
  from assms have r: "i = refresh Inventory.id (inventories ?db3) ?row"
    and s': "s' = commit (s\<lparr>pending := ?db3\<rparr>)"
    by (auto simp: create_inventory_def Let_def split: sum.splits if_splits prod.splits)
  have "find (\<lambda>x. Inventory.id x = ?inv_id) (inventories ?db1) = Some ?row"
    using find_new_row [of Inventory.id ?row "inventories ?db"] by simp
  from create_inventory_items_row [OF this, of ar "InventoryCreate.number data"
      "InventoryCreate.created_by data" "InventoryCreate.items data"]
  obtain its where f: "find (\<lambda>x. Inventory.id x = ?inv_id) (inventories (snd ?loop))
      = Some (?row\<lparr>Inventory.items := its\<rparr>)"
    by blast
  then have f3: "find (\<lambda>x. Inventory.id x = ?inv_id) (inventories ?db3)
      = Some (?row\<lparr>Inventory.items := its, Inventory.status := InventoryStatus.completed\<rparr>)"
    by (simp add: find_update_first_same)
  then have r': "i = ?row\<lparr>Inventory.items := its, Inventory.status := InventoryStatus.completed\<rparr>"
    using r by (simp add: refresh_def)
  show ?thesis
    using f3 by (simp add: r' s' commit_def)
qed

lemma stock_upsert_documents:
  "receipts (snd (stock_upsert ar db c l delta actor k d)) = receipts db
   \<and> issues (snd (stock_upsert ar db c l delta actor k d)) = issues db"
  by (simp add: stock_upsert_def Let_def add_stock_def set_quantity_def write_audit_def
      split: option.splits)

lemma confirm_receipt_items_documents:
  "receipts (snd (confirm_receipt_items ar db num actor lines)) = receipts db"
proof (induction lines arbitrary: db)
  case Nil
  show ?case by simp
next
  case (Cons item rest)
  obtain r db1 where step: "stock_upsert ar db (ReceiptItem.component_id item)
      (or_1 (ReceiptItem.location_id item)) (ReceiptItem.quantity item) actor receipt
      (Some (Receipt_by_invoice num)) = (r, db1)"
    by (cases "stock_upsert ar db (ReceiptItem.component_id item)
      (or_1 (ReceiptItem.location_id item)) (ReceiptItem.quantity item) actor receipt
      (Some (Receipt_by_invoice num))")
  with stock_upsert_documents [of ar db "ReceiptItem.component_id item"
      "or_1 (ReceiptItem.location_id item)" "ReceiptItem.quantity item" actor receipt
      "Some (Receipt_by_invoice num)"]
  have "receipts db1 = receipts db" by simp
  with Cons.IH [of db1] step show ?case by (cases r) simp_all
qed

lemma confirm_issue_items_documents:
  "issues (snd (confirm_issue_items ar db num actor lines)) = issues db"
proof (induction lines arbitrary: db)
  case Nil
  show ?case by simp
next
  case (Cons item rest)
  obtain r db1 where step: "stock_upsert ar db (IssueItem.component_id item)
      (or_1 (IssueItem.location_id item)) (f_neg ar (IssueItem.quantity item)) actor issue
      (Some (Issue_by_invoice num)) = (r, db1)"
    by (cases "stock_upsert ar db (IssueItem.component_id item)
      (or_1 (IssueItem.location_id item)) (f_neg ar (IssueItem.quantity item)) actor issue
      (Some (Issue_by_invoice num))")
  with stock_upsert_documents [of ar db "IssueItem.component_id item"
      "or_1 (IssueItem.location_id item)" "f_neg ar (IssueItem.quantity item)" actor issue
      "Some (Issue_by_invoice num)"]
  have "issues db1 = issues db" by simp
  with Cons.IH [of db1] step show ?case by (cases r) simp_all
qed

lemma confirm_receipt_Inr:
  assumes "confirm_receipt ar rec_id data s = (Inr r, s')"
  shows "\<exists>r0. find (\<lambda>x. Receipt.id x = rec_id) (receipts (pending s)) = Some r0
       \<and> Receipt.status r0 = ReceiptStatus.draft
       \<and> r = r0\<lparr>Receipt.status := ReceiptStatus.confirmed\<rparr>
       \<and> find (\<lambda>x. Receipt.id x = rec_id) (receipts (committed s')) = Some r"
proof -
  from assms obtain r0 where i: "int64 rec_id"
    and f: "find (\<lambda>x. Receipt.id x = rec_id) (receipts (pending s)) = Some r0"
    by (auto simp: confirm_receipt_def get_or_404_def split: option.splits if_splits)
  let ?loop = "confirm_receipt_items ar (pending s) (Receipt.number r0)
                (ReceiptConfirm.performed_by data) (Receipt.items r0)"
  from assms i f have st: "Receipt.status r0 = ReceiptStatus.draft"
    and r: "r = r0\<lparr>Receipt.status := ReceiptStatus.confirmed\<rparr>"
    and s': "s' = commit (s\<lparr>pending := (snd ?loop)\<lparr>receipts := update_first (\<lambda>r. Receipt.id r = rec_id)
                         (\<lambda>r. r\<lparr>Receipt.status := ReceiptStatus.confirmed\<rparr>) (receipts (snd ?loop))\<rparr>\<rparr>)"
    by (auto simp: confirm_receipt_def get_or_404_def Let_def split: if_splits sum.splits prod.splits)
  show ?thesis
    using f st r
    by (simp add: s' commit_def confirm_receipt_items_documents find_update_first_same)
qed

lemma confirm_issue_Inr:
  assumes "confirm_issue ar iss_id actor s = (Inr r, s')"
  shows "\<exists>r0. find (\<lambda>x. Issue.id x = iss_id) (issues (pending s)) = Some r0
       \<and> Issue.status r0 = IssueStatus.draft
       \<and> r = r0\<lparr>Issue.status := IssueStatus.confirmed\<rparr>
       \<and> find (\<lambda>x. Issue.id x = iss_id) (issues (committed s')) = Some r"
proof -
  from assms obtain r0 where i: "int64 iss_id"
    and f: "find (\<lambda>x. Issue.id x = iss_id) (issues (pending s)) = Some r0"
    by (auto simp: confirm_issue_def get_or_404_def split: option.splits if_splits)
  let ?loop = "confirm_issue_items ar (pending s) (Issue.number r0) actor (Issue.items r0)"
  from assms i f have st: "Issue.status r0 = IssueStatus.draft"
    and r: "r = r0\<lparr>Issue.status := IssueStatus.confirmed\<rparr>"
    and s': "s' = commit (s\<lparr>pending := (snd ?loop)\<lparr>issues := update_first (\<lambda>r. Issue.id r = iss_id)
                         (\<lambda>r. r\<lparr>Issue.status := IssueStatus.confirmed\<rparr>) (issues (snd ?loop))\<rparr>\<rparr>)"
    by (auto simp: confirm_issue_def get_or_404_def Let_def split: if_splits sum.splits prod.splits)
  show ?thesis
    using f st r
    by (simp add: s' commit_def confirm_issue_items_documents find_update_first_same)
qed


lemma post_inventories_count_7:
  "post_inventories exact count_7 db_ten =
   (Inr \<lparr>Inventory.id = 1, Inventory.number = ''INV-1'',
         Inventory.status = InventoryStatus.completed, Inventory.notes' = None,
         Inventory.created_by = None,
         Inventory.items = [\<lparr>InventoryItem.component_id = 1, InventoryItem.location_id = Some 1,
                              InventoryItem.expected_quantity = 10,
                              InventoryItem.actual_quantity = 7,
                              InventoryItem.discrepancy = - 3\<rparr>]\<rparr>,
    db_one\<lparr>stocks := [\<lparr>Stock.id = 1, Stock.component_id = 1, Stock.location_id = 1,
                        Stock.quantity = 7, Stock.reserved = 0\<rparr>],
      inventories := [\<lparr>Inventory.id = 1, Inventory.number = ''INV-1'',
         Inventory.status = InventoryStatus.completed, Inventory.notes' = None,
         Inventory.created_by = None,
         Inventory.items = [\<lparr>InventoryItem.component_id = 1, InventoryItem.location_id = Some 1,
                              InventoryItem.expected_quantity = 10,
                              InventoryItem.actual_quantity = 7,
                              InventoryItem.discrepancy = - 3\<rparr>]\<rparr>],
      audit_logs := [\<lparr>AuditLog.id = 1, AuditLog.action_type = inventory,
         AuditLog.entity_type = ''stock'', AuditLog.entity_id = Some 1,
         AuditLog.component_id = Some 1, AuditLog.location_id = Some 1,
         AuditLog.quantity_before = Some 10, AuditLog.quantity_after = Some 7,
         AuditLog.description = Some (Inventory_discrepancy ''INV-1'' (- 3)),
         AuditLog.payload = None, AuditLog.performed_by = None\<rparr>]\<rparr>)"
  by (simp add: post_inventories_def route_def valid_InventoryCreate_def count_7_def get_db_def
      SessionLocal_def create_inventory_def db_ten_def db_one_def next_id_def inventory_line_def
      get_or_404_def or_1_def query_stock_def at_cell_def set_quantity_def write_audit_def
      refresh_def commit_def close_def Let_def)

lemma post_receipts_request:
  "fst (post_receipts exact receipt_request db_one) = Inr receipt_3"
  by (simp add: post_receipts_def route_def valid_ReceiptCreate_def receipt_request_def get_db_def
      SessionLocal_def create_receipt_def db_one_def next_id_def get_or_404_def refresh_def
      storable_def commit_def close_def Let_def receipt_3_def)

text \<open>A confirm or cancel request with an id that the database cannot hold writes nothing.\<close>

lemma confirm_receipt_overflow:
  "\<not> int64 rec_id \<Longrightarrow> post_receipts_confirm ar rec_id data d = (Inl OverflowError, d)"
  by (simp add: post_receipts_confirm_def route_True confirm_receipt_def get_or_404_overflow SessionLocal_def)

lemma cancel_receipt_overflow:
  "\<not> int64 rec_id \<Longrightarrow> post_receipts_cancel rec_id d = (Inl OverflowError, d)"
  by (simp add: post_receipts_cancel_def route_True cancel_receipt_def get_or_404_overflow SessionLocal_def)

lemma confirm_issue_overflow:
  "\<not> int64 iss_id \<Longrightarrow> post_issues_confirm ar iss_id actor d = (Inl OverflowError, d)"
  by (simp add: post_issues_confirm_def route_True confirm_issue_def get_or_404_overflow SessionLocal_def)

lemma cancel_issue_overflow:
  "\<not> int64 iss_id \<Longrightarrow> post_issues_cancel iss_id d = (Inl OverflowError, d)"
  by (simp add: post_issues_cancel_def route_True cancel_issue_def get_or_404_overflow SessionLocal_def)

section \<open>C9: the life of a document\<close>

text \<open>
  Claim C9, as the code has it. A receipt and an issue are created in draft, and creating them
  writes neither the stock table nor the ledger; their stock mutations come with a later
  confirmation, which succeeds only on a draft and leaves the document confirmed; a document
  that is confirmed or cancelled is not changed by a confirm or cancel attempt. An inventory
  has no draft state and no confirmation step: the request that creates it processes its lines
  and returns it completed.
\<close>

theorem documents_start_in_draft_but_inventories:
  "(\<forall>r. fst (post_receipts ar rdata d) = Inr r \<longrightarrow>
        Receipt.status r = ReceiptStatus.draft
        \<and> stocks (snd (post_receipts ar rdata d)) = stocks d
        \<and> audit_logs (snd (post_receipts ar rdata d)) = audit_logs d
        \<and> find (\<lambda>x. Receipt.id x = Receipt.id r) (receipts (snd (post_receipts ar rdata d))) = Some r)
   \<and> (\<forall>r. fst (post_issues ar idata d) = Inr r \<longrightarrow>
        Issue.status r = IssueStatus.draft
        \<and> stocks (snd (post_issues ar idata d)) = stocks d
        \<and> audit_logs (snd (post_issues ar idata d)) = audit_logs d
        \<and> find (\<lambda>x. Issue.id x = Issue.id r) (issues (snd (post_issues ar idata d))) = Some r)
   \<and> (\<forall>r. fst (post_receipts_confirm ar rec_id conf d) = Inr r \<longrightarrow>
        (\<exists>r0. find (\<lambda>x. Receipt.id x = rec_id) (receipts d) = Some r0
           \<and> Receipt.status r0 = ReceiptStatus.draft
           \<and> r = r0\<lparr>Receipt.status := ReceiptStatus.confirmed\<rparr>
           \<and> find (\<lambda>x. Receipt.id x = rec_id) (receipts (snd (post_receipts_confirm ar rec_id conf d)))
               = Some r))
   \<and> (\<forall>r. fst (post_issues_confirm ar iss_id actor d) = Inr r \<longrightarrow>
        (\<exists>r0. find (\<lambda>x. Issue.id x = iss_id) (issues d) = Some r0
           \<and> Issue.status r0 = IssueStatus.draft
           \<and> r = r0\<lparr>Issue.status := IssueStatus.confirmed\<rparr>
           \<and> find (\<lambda>x. Issue.id x = iss_id) (issues (snd (post_issues_confirm ar iss_id actor d)))
               = Some r))
   \<and> (\<forall>rcpt. find (\<lambda>x. Receipt.id x = rec_id) (receipts d) = Some rcpt
           \<and> Receipt.status rcpt \<noteq> ReceiptStatus.draft \<longrightarrow>
        snd (post_receipts_confirm ar rec_id conf d) = d \<and> snd (post_receipts_cancel rec_id d) = d)
   \<and> (\<forall>iss. find (\<lambda>x. Issue.id x = iss_id) (issues d) = Some iss
           \<and> Issue.status iss \<noteq> IssueStatus.draft \<longrightarrow>
        snd (post_issues_confirm ar iss_id actor d) = d \<and> snd (post_issues_cancel iss_id d) = d)
   \<and> (\<forall>i. fst (post_inventories ar cdata d) = Inr i \<longrightarrow>
        Inventory.status i = InventoryStatus.completed
        \<and> find (\<lambda>x. Inventory.id x = Inventory.id i) (inventories (snd (post_inventories ar cdata d)))
            = Some i)"
proof -
  have c1: "(\<forall>r. fst (post_receipts ar rdata d) = Inr r \<longrightarrow>
        Receipt.status r = ReceiptStatus.draft
        \<and> stocks (snd (post_receipts ar rdata d)) = stocks d
        \<and> audit_logs (snd (post_receipts ar rdata d)) = audit_logs d
        \<and> find (\<lambda>x. Receipt.id x = Receipt.id r) (receipts (snd (post_receipts ar rdata d))) = Some r)"
  proof (intro allI impI)
    fix r
    assume "fst (post_receipts ar rdata d) = Inr r"
    from route_Inr [OF this [unfolded post_receipts_def]]
    have "create_receipt rdata (SessionLocal d) = (Inr r, snd (create_receipt rdata (SessionLocal d)))"
      and "snd (post_receipts ar rdata d) = committed (snd (create_receipt rdata (SessionLocal d)))"
      by (simp_all add: post_receipts_def)
    with create_receipt_Inr [of rdata "SessionLocal d" r]
    show "Receipt.status r = ReceiptStatus.draft
          \<and> stocks (snd (post_receipts ar rdata d)) = stocks d
          \<and> audit_logs (snd (post_receipts ar rdata d)) = audit_logs d
          \<and> find (\<lambda>x. Receipt.id x = Receipt.id r) (receipts (snd (post_receipts ar rdata d))) = Some r"
      by (simp add: SessionLocal_def)
  qed
  have c2: "(\<forall>r. fst (post_issues ar idata d) = Inr r \<longrightarrow>
        Issue.status r = IssueStatus.draft
        \<and> stocks (snd (post_issues ar idata d)) = stocks d
        \<and> audit_logs (snd (post_issues ar idata d)) = audit_logs d
        \<and> find (\<lambda>x. Issue.id x = Issue.id r) (issues (snd (post_issues ar idata d))) = Some r)"
  proof (intro allI impI)
    fix r
    assume "fst (post_issues ar idata d) = Inr r"
    from route_Inr [OF this [unfolded post_issues_def]]
    have "create_issue idata (SessionLocal d) = (Inr r, snd (create_issue idata (SessionLocal d)))"
      and "snd (post_issues ar idata d) = committed (snd (create_issue idata (SessionLocal d)))"
      by (simp_all add: post_issues_def)
    with create_issue_Inr [of idata "SessionLocal d" r]
    show "Issue.status r = IssueStatus.draft
          \<and> stocks (snd (post_issues ar idata d)) = stocks d
          \<and> audit_logs (snd (post_issues ar idata d)) = audit_logs d
          \<and> find (\<lambda>x. Issue.id x = Issue.id r) (issues (snd (post_issues ar idata d))) = Some r"
      by (simp add: SessionLocal_def)
  qed
  have c3: "(\<forall>r. fst (post_receipts_confirm ar rec_id conf d) = Inr r \<longrightarrow>
        (\<exists>r0. find (\<lambda>x. Receipt.id x = rec_id) (receipts d) = Some r0
           \<and> Receipt.status r0 = ReceiptStatus.draft
           \<and> r = r0\<lparr>Receipt.status := ReceiptStatus.confirmed\<rparr>
           \<and> find (\<lambda>x. Receipt.id x = rec_id) (receipts (snd (post_receipts_confirm ar rec_id conf d)))
               = Some r))"
  proof (intro allI impI)
    fix r
    assume "fst (post_receipts_confirm ar rec_id conf d) = Inr r"
    from route_Inr [OF this [unfolded post_receipts_confirm_def]]
    have "confirm_receipt ar rec_id conf (SessionLocal d)
            = (Inr r, snd (confirm_receipt ar rec_id conf (SessionLocal d)))"
      and "snd (post_receipts_confirm ar rec_id conf d)
            = committed (snd (confirm_receipt ar rec_id conf (SessionLocal d)))"
      by (simp_all add: post_receipts_confirm_def)
    with confirm_receipt_Inr [of ar rec_id conf "SessionLocal d" r]
    show "\<exists>r0. find (\<lambda>x. Receipt.id x = rec_id) (receipts d) = Some r0
             \<and> Receipt.status r0 = ReceiptStatus.draft
             \<and> r = r0\<lparr>Receipt.status := ReceiptStatus.confirmed\<rparr>
             \<and> find (\<lambda>x. Receipt.id x = rec_id) (receipts (snd (post_receipts_confirm ar rec_id conf d)))
                 = Some r"
      by (simp add: SessionLocal_def)
  qed
  have c4: "(\<forall>r. fst (post_issues_confirm ar iss_id actor d) = Inr r \<longrightarrow>
        (\<exists>r0. find (\<lambda>x. Issue.id x = iss_id) (issues d) = Some r0
           \<and> Issue.status r0 = IssueStatus.draft
           \<and> r = r0\<lparr>Issue.status := IssueStatus.confirmed\<rparr>
           \<and> find (\<lambda>x. Issue.id x = iss_id) (issues (snd (post_issues_confirm ar iss_id actor d)))
               = Some r))"
  proof (intro allI impI)
    fix r
    assume "fst (post_issues_confirm ar iss_id actor d) = Inr r"
    from route_Inr [OF this [unfolded post_issues_confirm_def]]
    have "confirm_issue ar iss_id actor (SessionLocal d)
            = (Inr r, snd (confirm_issue ar iss_id actor (SessionLocal d)))"
      and "snd (post_issues_confirm ar iss_id actor d)
            = committed (snd (confirm_issue ar iss_id actor (SessionLocal d)))"
      by (simp_all add: post_issues_confirm_def)
    with confirm_issue_Inr [of ar iss_id actor "SessionLocal d" r]
    show "\<exists>r0. find (\<lambda>x. Issue.id x = iss_id) (issues d) = Some r0
             \<and> Issue.status r0 = IssueStatus.draft
             \<and> r = r0\<lparr>Issue.status := IssueStatus.confirmed\<rparr>
             \<and> find (\<lambda>x. Issue.id x = iss_id) (issues (snd (post_issues_confirm ar iss_id actor d)))
                 = Some r"
      by (simp add: SessionLocal_def)
  qed
  have c5: "(\<forall>rcpt. find (\<lambda>x. Receipt.id x = rec_id) (receipts d) = Some rcpt
           \<and> Receipt.status rcpt \<noteq> ReceiptStatus.draft \<longrightarrow>
        snd (post_receipts_confirm ar rec_id conf d) = d \<and> snd (post_receipts_cancel rec_id d) = d)"
  proof (intro allI impI)
    fix rcpt
    assume a: "find (\<lambda>x. Receipt.id x = rec_id) (receipts d) = Some rcpt
             \<and> Receipt.status rcpt \<noteq> ReceiptStatus.draft"
    have "snd (post_receipts_confirm ar rec_id conf d) = d"
    proof (cases "int64 rec_id")
      case True
      with a show ?thesis by (simp add: confirm_receipt_processed)
    next
      case False
      then show ?thesis by (simp add: confirm_receipt_overflow)
    qed
    moreover have "snd (post_receipts_cancel rec_id d) = d"
    proof (cases "int64 rec_id")
      case True
      with a show ?thesis
        by (cases "Receipt.status rcpt")
           (simp_all add: cancel_receipt_confirmed cancel_receipt_cancelled)
    next
      case False
      then show ?thesis by (simp add: cancel_receipt_overflow)
    qed
    ultimately show "snd (post_receipts_confirm ar rec_id conf d) = d \<and> snd (post_receipts_cancel rec_id d) = d"
      by simp
  qed
  have c6: "(\<forall>iss. find (\<lambda>x. Issue.id x = iss_id) (issues d) = Some iss
           \<and> Issue.status iss \<noteq> IssueStatus.draft \<longrightarrow>
        snd (post_issues_confirm ar iss_id actor d) = d \<and> snd (post_issues_cancel iss_id d) = d)"
  proof (intro allI impI)
    fix iss
    assume a: "find (\<lambda>x. Issue.id x = iss_id) (issues d) = Some iss
             \<and> Issue.status iss \<noteq> IssueStatus.draft"
    have "snd (post_issues_confirm ar iss_id actor d) = d"
    proof (cases "int64 iss_id")
      case True
      with a show ?thesis by (simp add: confirm_issue_processed)
    next
      case False
      then show ?thesis by (simp add: confirm_issue_overflow)
    qed
    moreover have "snd (post_issues_cancel iss_id d) = d"
    proof (cases "int64 iss_id")
      case True
      with a show ?thesis
        by (cases "Issue.status iss")
           (simp_all add: cancel_issue_confirmed cancel_issue_cancelled)
    next
      case False
      then show ?thesis by (simp add: cancel_issue_overflow)
    qed
    ultimately show "snd (post_issues_confirm ar iss_id actor d) = d \<and> snd (post_issues_cancel iss_id d) = d"
      by simp
  qed
  have c7: "(\<forall>i. fst (post_inventories ar cdata d) = Inr i \<longrightarrow>
        Inventory.status i = InventoryStatus.completed
        \<and> find (\<lambda>x. Inventory.id x = Inventory.id i) (inventories (snd (post_inventories ar cdata d)))
            = Some i)"
  proof (intro allI impI)
    fix i
    assume "fst (post_inventories ar cdata d) = Inr i"
    from route_Inr [OF this [unfolded post_inventories_def]]
    have "create_inventory ar cdata (SessionLocal d) = (Inr i, snd (create_inventory ar cdata (SessionLocal d)))"
      and "snd (post_inventories ar cdata d) = committed (snd (create_inventory ar cdata (SessionLocal d)))"
      by (simp_all add: post_inventories_def)
    with create_inventory_Inr [of ar cdata "SessionLocal d" i]
    show "Inventory.status i = InventoryStatus.completed
          \<and> find (\<lambda>x. Inventory.id x = Inventory.id i) (inventories (snd (post_inventories ar cdata d)))
              = Some i"
      by simp
  qed
  from c1 c2 c3 c4 c5 c6 c7 show ?thesis by (intro conjI)
qed

theorem documents_start_in_draft_but_inventories_witness:
  "fst (post_receipts exact receipt_request db_one) = Inr receipt_3
   \<and> Receipt.status receipt_3 = ReceiptStatus.draft
   \<and> stocks (snd (post_receipts exact receipt_request db_one)) = []
   \<and> audit_logs (snd (post_receipts exact receipt_request db_one)) = []
   \<and> find (\<lambda>x. Receipt.id x = 1) (receipts (snd (post_receipts exact receipt_request db_one)))
       = Some receipt_3"
  using documents_start_in_draft_but_inventories
    [where ar = exact and rdata = receipt_request and d = db_one and idata = issue_request
       and rec_id = 1 and conf = "\<lparr>ReceiptConfirm.performed_by = None\<rparr>" and iss_id = 1
       and actor = None and cdata = count_7,
     THEN conjunct1, rule_format, OF post_receipts_request]
    post_receipts_request
  by (simp add: db_one_def receipt_3_def)

text \<open>
  The claim as written has an inventory exist in draft after its creation, with no balance
  changed until a confirmation. Creating the inventory that counts 7 pieces in the cell of 10
  returns it completed, with the balance exact at 7 and the ledger entry written.
\<close>

theorem inventory_is_completed_at_creation:
  "valid_InventoryCreate exact count_7
   \<and> balance exact db_ten 1 1 = 10
   \<and> fst (post_inventories exact count_7 db_ten) =
       Inr \<lparr>Inventory.id = 1, Inventory.number = ''INV-1'',
         Inventory.status = InventoryStatus.completed, Inventory.notes' = None,
         Inventory.created_by = None,
         Inventory.items = [\<lparr>InventoryItem.component_id = 1, InventoryItem.location_id = Some 1,
                              InventoryItem.expected_quantity = 10,
                              InventoryItem.actual_quantity = 7,
                              InventoryItem.discrepancy = - 3\<rparr>]\<rparr>
   \<and> balance exact (snd (post_inventories exact count_7 db_ten)) 1 1 = 7
   \<and> length (audit_logs (snd (post_inventories exact count_7 db_ten))) = 1"
  by (simp add: post_inventories_count_7)
     (simp add: valid_InventoryCreate_def count_7_def db_ten_def db_one_def balance_def
        query_stock_def at_cell_def)

end
